theory Spec2Isabelle
  imports Main "HOL-Library.Word" "HOL-Library.AList"
begin

section \<open>Notifier.cpp: the notification popup manager\<close>

text \<open>
  The development follows \<^verbatim>\<open>src/components/notifier/Notifier.cpp\<close>. A C++ \<^verbatim>\<open>int\<close> is
  a 32-bit word read in two's complement (\<open>sint\<close>, \<open>\<le>s\<close>, \<open><s\<close>). The source adds
  \<^verbatim>\<open>int\<close>s without any check, so a sum is the 32-bit sum, which wraps around. The call
  of \<^verbatim>\<open>qFatal\<close> and the use of a null pointer do not return: they are error values of
  the model. The toolkit (Qt) is not part of the file: its objects are records of what
  the file observes of them, and the calls made on it are kept, in program order, in a
  trace, together with the operations on the mutex and on the two members it guards.
\<close>

subsection \<open>Constants (lines 35 to 52)\<close>

type_synonym cint = "32 word"

definition NOTIFICATION_SHOW_METHOD_NAME :: string where
  "NOTIFICATION_SHOW_METHOD_NAME = ''show''"

definition NOTIFICATION_PROPERTY_DATA :: string where
  "NOTIFICATION_PROPERTY_DATA = ''notificationData''"

definition NOTIFICATION_PROPERTY_HEIGHT :: string where
  "NOTIFICATION_PROPERTY_HEIGHT = ''notificationHeight''"

definition NOTIFICATION_PROPERTY_OFFSET :: string where
  "NOTIFICATION_PROPERTY_OFFSET = ''notificationOffset''"

definition QML_NOTIFICATION_PATH_RECEIVED_MESSAGE :: string where
  "QML_NOTIFICATION_PATH_RECEIVED_MESSAGE =
     ''qrc:/ui/modules/Linphone/Notifications/NotificationReceivedMessage.qml''"

definition QML_NOTIFICATION_PATH_RECEIVED_FILE_MESSAGE :: string where
  "QML_NOTIFICATION_PATH_RECEIVED_FILE_MESSAGE =
     ''qrc:/ui/modules/Linphone/Notifications/NotificationReceivedFileMessage.qml''"

definition QML_NOTIFICATION_PATH_RECEIVED_CALL :: string where
  "QML_NOTIFICATION_PATH_RECEIVED_CALL =
     ''qrc:/ui/modules/Linphone/Notifications/NotificationReceivedCall.qml''"

definition NOTIFICATION_TIMEOUT_RECEIVED_MESSAGE :: cint where
  "NOTIFICATION_TIMEOUT_RECEIVED_MESSAGE = 10000"

definition NOTIFICATION_TIMEOUT_RECEIVED_FILE_MESSAGE :: cint where
  "NOTIFICATION_TIMEOUT_RECEIVED_FILE_MESSAGE = 10000"

definition NOTIFICATION_TIMEOUT_RECEIVED_CALL :: cint where
  "NOTIFICATION_TIMEOUT_RECEIVED_CALL = 10000"

definition NOTIFICATION_SPACING :: cint where
  "NOTIFICATION_SPACING = 10"

text \<open>
  \<^verbatim>\<open>N_MAX_NOTIFICATIONS\<close> is compared with the instance counter, at the counter's type
  (see \<open>Notifier\<close> below).
\<close>

definition N_MAX_NOTIFICATIONS :: "'n::numeral" where
  "N_MAX_NOTIFICATIONS = 15"

definition MAX_TIMEOUT :: cint where
  "MAX_TIMEOUT = 60000"

subsection \<open>Toolkit and domain objects, as this file sees them\<close>

datatype QQuickWindow = QQuickWindow nat

datatype CallModel = CallModel nat

text \<open>
  The values this file wraps into a \<^verbatim>\<open>QVariant\<close>: the \<^verbatim>\<open>int\<close> offset, converted strings,
  the \<^verbatim>\<open>quint64\<close> file size, the main window, a call model, and the \<^verbatim>\<open>QVariantMap\<close>
  holding them (keys in order of insertion).
\<close>

datatype QVariant =
    VInt cint
  | VString string
  | VULongLong "64 word"
  | VWindow QQuickWindow
  | VCallModel CallModel
  | VMap "(string \<times> QVariant) list"

text \<open>
  A notification object built by a QML component. \<open>toInt o p\<close> is what
  \<^verbatim>\<open>o.property(p).toInt(&ok)\<close> yields, the value and the flag \<^verbatim>\<open>ok\<close>; \<open>writable o p\<close>
  is what \<^verbatim>\<open>o.setProperty(p, v)\<close> returns; \<open>properties\<close> holds the values stored by the
  calls of \<^verbatim>\<open>setProperty\<close> that returned true; \<open>findChild\<close> is the result of
  \<^verbatim>\<open>findChild<QQuickWindow *>()\<close>, \<open>None\<close> for a null pointer. The file reads the height
  and writes the offset and the data, never a property it wrote.
\<close>

record QObject =
  toInt :: "string \<Rightarrow> cint \<times> bool"
  writable :: "string \<Rightarrow> bool"
  properties :: "(string \<times> QVariant) list"
  findChild :: "QQuickWindow option"

text \<open>
  \<^verbatim>\<open>Notifier::NotificationType\<close>, the index of \<^verbatim>\<open>m_components\<close>: the three enumerators
  that the file names, besides their number \<^verbatim>\<open>MaxNbTypes\<close>.
\<close>

datatype NotificationType = MessageReceived | FileMessageReceived | CallReceived

text \<open>
  The constructor (lines 83 to 100) fills \<^verbatim>\<open>m_components\<close> with one component per type,
  built from the three URLs, and nothing writes the array afterwards: a component is
  its URL.
\<close>

fun m_components :: "NotificationType \<Rightarrow> string" where
  "m_components MessageReceived = QML_NOTIFICATION_PATH_RECEIVED_MESSAGE"
| "m_components FileMessageReceived = QML_NOTIFICATION_PATH_RECEIVED_FILE_MESSAGE"
| "m_components CallReceived = QML_NOTIFICATION_PATH_RECEIVED_CALL"

subsection \<open>The notifier's state and the trace of its operations\<close>

datatype member = Instances | Offset

text \<open>
  The operations the file performs on its mutex, on the two members the mutex guards,
  and on the toolkit. \<open>ConnectVisibleChanged w\<close> connects the lambda of lines 156 to 170
  to the signal \<^verbatim>\<open>visibleChanged\<close> of window \<open>w\<close>; \<open>SingleShot t o\<close> starts a single-shot
  timer of \<open>t\<close> milliseconds that runs the lambda of lines 175 to 177 on notification
  \<open>o\<close>; \<open>ConnectStatusChanged m o\<close> connects the lambda of lines 218 to 221, on
  notification \<open>o\<close>, to the signal \<^verbatim>\<open>statusChanged\<close> of call model \<open>m\<close>.
\<close>

datatype action =
    Lock
  | Unlock
  | Read member
  | Write member
  | Delete QObject
  | InvokeMethod QObject string
  | ConnectVisibleChanged QQuickWindow
  | SingleShot cint QObject
  | ConnectStatusChanged CallModel QObject
  | SetVisible QQuickWindow bool

text \<open>
  The members \<^verbatim>\<open>m_offset\<close> and \<^verbatim>\<open>m_n_instances\<close> are declared in \<^verbatim>\<open>Notifier.hpp\<close>, which
  is not among the sources. \<^verbatim>\<open>m_offset\<close> is added to the \<^verbatim>\<open>int\<close> height and handed to the
  \<^verbatim>\<open>int\<close> property \<^verbatim>\<open>notificationOffset\<close>: it is an \<^verbatim>\<open>int\<close>. The counter is only compared
  with 15 and with 0, incremented and decremented: its type is the parameter \<open>'n\<close>, an
  ordered commutative ring such as \<open>int\<close> or \<open>32 word\<close> (an \<^verbatim>\<open>unsigned int\<close>, where
  decrementing zero wraps around). \<open>trace\<close> is the sequence of operations performed so
  far.
\<close>

record 'n Notifier =
  m_offset :: cint
  m_n_instances :: 'n
  trace :: "action list"

datatype error = NullPointer | Fatal

definition perform :: "action \<Rightarrow> 'n Notifier \<Rightarrow> 'n Notifier" where
  "perform a n = n\<lparr>trace := trace n @ [a]\<rparr>"

definition get_n_instances :: "'n Notifier \<Rightarrow> 'n \<times> 'n Notifier" where
  "get_n_instances n = (m_n_instances n, perform (Read Instances) n)"

definition set_n_instances :: "'n \<Rightarrow> 'n Notifier \<Rightarrow> 'n Notifier" where
  "set_n_instances v n = perform (Write Instances) (n\<lparr>m_n_instances := v\<rparr>)"

definition get_offset :: "'n Notifier \<Rightarrow> cint \<times> 'n Notifier" where
  "get_offset n = (m_offset n, perform (Read Offset) n)"

definition set_offset :: "cint \<Rightarrow> 'n Notifier \<Rightarrow> 'n Notifier" where
  "set_offset v n = perform (Write Offset) (n\<lparr>m_offset := v\<rparr>)"

subsection \<open>The helpers (lines 56 to 79)\<close>

text \<open>The warnings written with \<^verbatim>\<open>qWarning\<close> and \<^verbatim>\<open>qInfo\<close> are left out throughout.\<close>

definition getNotificationSize :: "QObject \<Rightarrow> string \<Rightarrow> cint" where
  "getNotificationSize object property =
     (let (size, so_far_so_good) = toInt object property
      in if \<not> so_far_so_good \<or> size <s 0 then - 1 else size)"

definition setProperty :: "QObject \<Rightarrow> string \<Rightarrow> QVariant \<Rightarrow> bool \<times> QObject" where
  "setProperty object property qvariant =
     (if \<not> writable object property then (False, object)
      else (True, object\<lparr>properties := AList.update property qvariant (properties object)\<rparr>))"

subsection \<open>createNotification (lines 109 to 135)\<close>

text \<open>
  \<open>create url\<close> is what \<^verbatim>\<open>create()\<close> of the component of that URL returns at this call,
  \<open>None\<close> for a null pointer; lines 120 and 121 use the result without a test, so a
  null pointer is the error \<open>NullPointer\<close>. The result is the returned pointer, \<open>None\<close>
  for \<^verbatim>\<open>nullptr\<close>, and the state. The steps are those of the source, in its order: the
  second operand of \<^verbatim>\<open>||\<close> in line 123, which reads \<^verbatim>\<open>m_offset\<close>, is evaluated only when
  the height was read; the sum of line 129 is the unchecked 32-bit sum.
\<close>

definition createNotification ::
  "(string \<Rightarrow> QObject option) \<Rightarrow> NotificationType \<Rightarrow> ('n::{comm_ring_1,linorder}) Notifier
     \<Rightarrow> error + (QObject option \<times> 'n Notifier)" where
  "createNotification create type n0 =
     (let n1 = perform Lock n0;
          (instances, n2) = get_n_instances n1
      in if N_MAX_NOTIFICATIONS \<le> instances then Inr (None, perform Unlock n2)
         else
           case create (m_components type) of
             None \<Rightarrow> Inl NullPointer
           | Some object \<Rightarrow>
               let offset = getNotificationSize object NOTIFICATION_PROPERTY_HEIGHT
               in if offset = - 1 then Inr (None, perform Unlock (perform (Delete object) n2))
                  else
                    let (value, n3) = get_offset n2;
                        (ok, object') =
                          setProperty object NOTIFICATION_PROPERTY_OFFSET (VInt value)
                    in if \<not> ok then Inr (None, perform Unlock (perform (Delete object') n3))
                       else
                         let (old, n4) = get_offset n3;
                             n5 = set_offset ((offset + old) + NOTIFICATION_SPACING) n4;
                             (count, n6) = get_n_instances n5;
                             n7 = set_n_instances (count + 1) n6
                         in Inr (Some object', perform Unlock n7))"

subsection \<open>showNotification (lines 137 to 179) and its two lambdas\<close>

text \<open>
  \<^verbatim>\<open>qFatal\<close> ends the program: the error \<open>Fatal\<close>. The two lambdas are not run here, they
  are handed to the toolkit, which runs them when the signal is emitted and when the
  timer expires.
\<close>

definition showNotification ::
  "QObject \<Rightarrow> cint \<Rightarrow> 'n Notifier \<Rightarrow> error + 'n Notifier" where
  "showNotification notification timeout n0 =
     (let timeout' = (if MAX_TIMEOUT <s timeout then MAX_TIMEOUT else timeout);
          n1 = perform (InvokeMethod notification NOTIFICATION_SHOW_METHOD_NAME) n0
      in case findChild notification of
           None \<Rightarrow> Inl Fatal
         | Some window \<Rightarrow>
             let n2 = perform (ConnectVisibleChanged window) n1
             in Inr (perform (SingleShot timeout' notification) n2))"

text \<open>The lambda of lines 156 to 170, connected to \<^verbatim>\<open>visibleChanged\<close>.\<close>

definition visibleChanged_lambda ::
  "bool \<Rightarrow> ('n::{comm_ring_1,linorder}) Notifier \<Rightarrow> 'n Notifier" where
  "visibleChanged_lambda visible n0 =
     (let n1 = perform Lock n0;
          (count, n2) = get_n_instances n1;
          n3 = set_n_instances (count - 1) n2;
          (count', n4) = get_n_instances n3;
          n5 = (if count' = 0 then set_offset 0 n4 else n4)
      in perform Unlock n5)"

text \<open>The lambda of lines 175 to 177, run when the single-shot timer expires.\<close>

definition singleShot_lambda :: "QObject \<Rightarrow> 'n Notifier \<Rightarrow> 'n Notifier" where
  "singleShot_lambda notification n0 = perform (Delete notification) n0"

subsection \<open>The three notify operations (lines 183 to 229)\<close>

text \<open>
  What the operations read of their arguments and collaborators. A chat message is the
  results of its four accessors: \<open>getFromAddress\<close> is
  \<^verbatim>\<open>getFromAddress()->asStringUriOnly()\<close> and \<open>getFileTransferInformation\<close> is
  \<^verbatim>\<open>getFileTransferInformation()->getSize()\<close>, a \<^verbatim>\<open>size_t\<close>. \<^verbatim>\<open>CallModel::CallStatus\<close> is
  declared in \<^verbatim>\<open>CallModel.hpp\<close>, not among the sources: this file names
  \<^verbatim>\<open>CallStatusEnded\<close> only, and \<open>CallStatusOther\<close> stands for the other enumerators.
  \<^verbatim>\<open>Utils::linphoneStringToQString\<close> is declared in \<^verbatim>\<open>utils.hpp\<close>, not among the sources: it
  is taken as a parameter, with the other collaborators: \<open>create\<close> (see
  \<open>createNotification\<close>), \<open>getMainWindow\<close> for \<^verbatim>\<open>App::getInstance()->getMainWindow()\<close> and
  \<open>getCall\<close> for \<^verbatim>\<open>CoreManager::getInstance()->getCallsListModel()->getCall(call)\<close>.
\<close>

record ChatMessage =
  getText :: string
  getFromAddress :: string
  getFileTransferFilepath :: string
  getFileTransferInformation :: nat

datatype Call = Call nat

datatype CallStatus = CallStatusEnded | CallStatusOther nat

record Collaborators =
  create :: "string \<Rightarrow> QObject option"
  getMainWindow :: QQuickWindow
  getCall :: "Call \<Rightarrow> CallModel"
  linphoneStringToQString :: "string \<Rightarrow> string"

definition notifyReceivedMessage ::
  "Collaborators \<Rightarrow> ChatMessage \<Rightarrow> ('n::{comm_ring_1,linorder}) Notifier \<Rightarrow> error + 'n Notifier" where
  "notifyReceivedMessage env message n0 =
     (case createNotification (create env) MessageReceived n0 of
        Inl e \<Rightarrow> Inl e
      | Inr (None, n1) \<Rightarrow> Inr n1
      | Inr (Some notification, n1) \<Rightarrow>
          let map0 = [];
              map1 = AList.update ''message''
                       (VString (linphoneStringToQString env (getText message))) map0;
              map2 = AList.update ''sipAddress''
                       (VString (linphoneStringToQString env (getFromAddress message))) map1;
              map3 = AList.update ''window'' (VWindow (getMainWindow env)) map2;
              (ok, notification') = setProperty notification NOTIFICATION_PROPERTY_DATA (VMap map3)
          in showNotification notification' NOTIFICATION_TIMEOUT_RECEIVED_MESSAGE n1)"

definition notifyReceivedFileMessage ::
  "Collaborators \<Rightarrow> ChatMessage \<Rightarrow> ('n::{comm_ring_1,linorder}) Notifier \<Rightarrow> error + 'n Notifier" where
  "notifyReceivedFileMessage env message n0 =
     (case createNotification (create env) FileMessageReceived n0 of
        Inl e \<Rightarrow> Inl e
      | Inr (None, n1) \<Rightarrow> Inr n1
      | Inr (Some notification, n1) \<Rightarrow>
          let map0 = [];
              map1 = AList.update ''fileUri''
                       (VString (linphoneStringToQString env (getFileTransferFilepath message))) map0;
              map2 = AList.update ''fileSize''
                       (VULongLong (of_nat (getFileTransferInformation message))) map1;
              (ok, notification') = setProperty notification NOTIFICATION_PROPERTY_DATA (VMap map2)
          in showNotification notification' NOTIFICATION_TIMEOUT_RECEIVED_FILE_MESSAGE n1)"

text \<open>
  The lambda of lines 218 to 221, connected to \<^verbatim>\<open>statusChanged\<close> of the call model.
  Calling \<^verbatim>\<open>setVisible\<close> through a null window pointer is undefined: the error
  \<open>NullPointer\<close>.
\<close>

definition statusChanged_lambda ::
  "QObject \<Rightarrow> CallStatus \<Rightarrow> 'n Notifier \<Rightarrow> error + 'n Notifier" where
  "statusChanged_lambda notification status n0 =
     (if status = CallStatusEnded
      then (case findChild notification of
              None \<Rightarrow> Inl NullPointer
            | Some window \<Rightarrow> Inr (perform (SetVisible window False) n0))
      else Inr n0)"

definition notifyReceivedCall ::
  "Collaborators \<Rightarrow> Call \<Rightarrow> ('n::{comm_ring_1,linorder}) Notifier \<Rightarrow> error + 'n Notifier" where
  "notifyReceivedCall env call n0 =
     (case createNotification (create env) CallReceived n0 of
        Inl e \<Rightarrow> Inl e
      | Inr (None, n1) \<Rightarrow> Inr n1
      | Inr (Some notification, n1) \<Rightarrow>
          let model = getCall env call;
              n2 = perform (ConnectStatusChanged model notification) n1;
              map0 = [];
              map1 = AList.update ''call'' (VCallModel model) map0;
              (ok, notification') = setProperty notification NOTIFICATION_PROPERTY_DATA (VMap map1)
          in showNotification notification' NOTIFICATION_TIMEOUT_RECEIVED_CALL n2)"

subsection \<open>Runs of the notifier\<close>

text \<open>
  The entry points of the file: its three public operations and its three lambdas, each
  with the arguments and the collaborators of that call. A run performs a sequence of
  them on the notifier and stops at the first error.
\<close>

datatype event =
    ReceivedMessage Collaborators ChatMessage
  | ReceivedFileMessage Collaborators ChatMessage
  | ReceivedCall Collaborators Call
  | VisibleChanged bool
  | TimerExpired QObject
  | StatusChanged QObject CallStatus

fun step :: "event \<Rightarrow> ('n::{comm_ring_1,linorder}) Notifier \<Rightarrow> error + 'n Notifier" where
  "step (ReceivedMessage env message) n = notifyReceivedMessage env message n"
| "step (ReceivedFileMessage env message) n = notifyReceivedFileMessage env message n"
| "step (ReceivedCall env call) n = notifyReceivedCall env call n"
| "step (VisibleChanged visible) n = Inr (visibleChanged_lambda visible n)"
| "step (TimerExpired notification) n = Inr (singleShot_lambda notification n)"
| "step (StatusChanged notification status) n = statusChanged_lambda notification status n"

fun run :: "event list \<Rightarrow> ('n::{comm_ring_1,linorder}) Notifier \<Rightarrow> error + 'n Notifier" where
  "run [] n = Inr n"
| "run (e # es) n = (case step e n of Inl err \<Rightarrow> Inl err | Inr n' \<Rightarrow> run es n')"

text \<open>The popup that the call of \<open>createNotification\<close> in an event returns, if any.\<close>

fun created :: "event \<Rightarrow> ('n::{comm_ring_1,linorder}) Notifier \<Rightarrow> QObject option" where
  "created (ReceivedMessage env message) n =
     (case createNotification (create env) MessageReceived n of
        Inr (popup, n') \<Rightarrow> popup | Inl e \<Rightarrow> None)"
| "created (ReceivedFileMessage env message) n =
     (case createNotification (create env) FileMessageReceived n of
        Inr (popup, n') \<Rightarrow> popup | Inl e \<Rightarrow> None)"
| "created (ReceivedCall env call) n =
     (case createNotification (create env) CallReceived n of
        Inr (popup, n') \<Rightarrow> popup | Inl e \<Rightarrow> None)"
| "created (VisibleChanged visible) n = None"
| "created (TimerExpired notification) n = None"
| "created (StatusChanged notification status) n = None"

text \<open>The popups created along a run, in order.\<close>

fun popups :: "event list \<Rightarrow> ('n::{comm_ring_1,linorder}) Notifier \<Rightarrow> QObject list" where
  "popups [] n = []"
| "popups (e # es) n =
     (case step e n of
        Inl err \<Rightarrow> []
      | Inr n' \<Rightarrow> (case created e n of None \<Rightarrow> popups es n' | Some popup \<Rightarrow> popup # popups es n'))"

text \<open>
  A run keeps a notification live when none of its dismissals brings the counter to
  zero.
\<close>

fun live :: "event list \<Rightarrow> ('n::{comm_ring_1,linorder}) Notifier \<Rightarrow> bool" where
  "live [] n = True"
| "live (VisibleChanged visible # es) n =
     (m_n_instances (visibleChanged_lambda visible n) \<noteq> 0 \<and> live es (visibleChanged_lambda visible n))"
| "live (e # es) n = (case step e n of Inl err \<Rightarrow> True | Inr n' \<Rightarrow> live es n')"

definition height :: "QObject \<Rightarrow> int" where
  "height popup = sint (fst (toInt popup NOTIFICATION_PROPERTY_HEIGHT))"

text \<open>The vertical position a popup was given: its property \<^verbatim>\<open>notificationOffset\<close>.\<close>

definition position :: "QObject \<Rightarrow> int option" where
  "position popup =
     (case map_of (properties popup) NOTIFICATION_PROPERTY_OFFSET of
        Some (VInt v) \<Rightarrow> Some (sint v) | _ \<Rightarrow> None)"

text \<open>
  The locking discipline on a sequence of operations, read from left to right with the
  state of the mutex: the mutex is locked only when free and unlocked only when held, a
  guarded member is read or written only when it is held, and it is free at the end.
\<close>

fun guarded :: "bool \<Rightarrow> action list \<Rightarrow> bool" where
  "guarded held [] = (\<not> held)"
| "guarded held (Lock # as) = (\<not> held \<and> guarded True as)"
| "guarded held (Unlock # as) = (held \<and> guarded False as)"
| "guarded held (Read m # as) = (held \<and> guarded held as)"
| "guarded held (Write m # as) = (held \<and> guarded held as)"
| "guarded held (a # as) = guarded held as"

text \<open>
  The operations \<open>ops\<close> account for the passage from a state to another when they are
  what the trace has gained, they obey the locking discipline, and a member that differs
  between the two states was written by one of them.
\<close>

definition accounted :: "'n Notifier \<Rightarrow> 'n Notifier \<Rightarrow> action list \<Rightarrow> bool" where
  "accounted n n' ops \<longleftrightarrow>
     trace n' = trace n @ ops \<and> guarded False ops \<and>
     (m_offset n' \<noteq> m_offset n \<longrightarrow> Write Offset \<in> set ops) \<and>
     (m_n_instances n' \<noteq> m_n_instances n \<longrightarrow> Write Instances \<in> set ops)"

text \<open>The single-shot timers started in a sequence of operations.\<close>

fun timers :: "action list \<Rightarrow> (cint \<times> QObject) list" where
  "timers [] = []"
| "timers (SingleShot t notification # as) = (t, notification) # timers as"
| "timers (a # as) = timers as"

text \<open>
  The notifications whose method \<^verbatim>\<open>show\<close> was invoked in a sequence of operations, and the
  data a notification holds: its property \<^verbatim>\<open>notificationData\<close>.
\<close>

fun shown :: "action list \<Rightarrow> QObject list" where
  "shown [] = []"
| "shown (InvokeMethod notification method # as) =
     (if method = NOTIFICATION_SHOW_METHOD_NAME then notification # shown as else shown as)"
| "shown (a # as) = shown as"

definition notificationData :: "QObject \<Rightarrow> QVariant option" where
  "notificationData notification = map_of (properties notification) NOTIFICATION_PROPERTY_DATA"

text \<open>The data of the notifications shown by an operation; none when it ends in an error.\<close>

definition forwarded :: "error + 'n Notifier \<Rightarrow> QVariant option list" where
  "forwarded result =
     (case result of Inl e \<Rightarrow> [] | Inr n \<Rightarrow> map notificationData (shown (trace n)))"

subsection \<open>Concrete inputs\<close>

text \<open>
  A popup of a given height that accepts every property and has a window, and a notifier
  with an \<^verbatim>\<open>unsigned int\<close> counter and an empty trace.
\<close>

definition example_popup :: "cint \<Rightarrow> QObject" where
  "example_popup h =
     \<lparr>toInt = (\<lambda>p. (h, True)), writable = (\<lambda>p. True), properties = [],
      findChild = Some (QQuickWindow 1)\<rparr>"

definition example_notifier :: "cint \<Rightarrow> 32 word \<Rightarrow> 32 word Notifier" where
  "example_notifier offset count = \<lparr>m_offset = offset, m_n_instances = count, trace = []\<rparr>"

text \<open>Collaborators that build this popup at a height of 120, and a chat message.\<close>

definition example_env :: Collaborators where
  "example_env =
     \<lparr>create = (\<lambda>url. Some (example_popup 120)), getMainWindow = QQuickWindow 0,
      getCall = (\<lambda>call. CallModel 5), linphoneStringToQString = (\<lambda>s. s)\<rparr>"

definition example_message :: ChatMessage where
  "example_message =
     \<lparr>getText = ''hello'', getFromAddress = ''sip:alice@example.org'',
      getFileTransferFilepath = ''/tmp/a.png'', getFileTransferInformation = 2048\<rparr>"

text \<open>
  A chat message and a call are notified, then one notification is dismissed; and a chat
  message is notified and dismissed, which brings the counter back to zero.
\<close>

definition example_events :: "event list" where
  "example_events =
     [ReceivedMessage example_env example_message, ReceivedCall example_env (Call 3),
      VisibleChanged False]"

definition example_dismissed :: "event list" where
  "example_dismissed = [ReceivedMessage example_env example_message, VisibleChanged False]"

section \<open>Properties\<close>

subsection \<open>Auxiliary facts\<close>

lemmas prims = perform_def get_n_instances_def set_n_instances_def get_offset_def set_offset_def

lemmas names = NOTIFICATION_PROPERTY_HEIGHT_def NOTIFICATION_PROPERTY_OFFSET_def
  NOTIFICATION_PROPERTY_DATA_def NOTIFICATION_SHOW_METHOD_NAME_def

lemmas evaluate = createNotification_def prims example_popup_def example_notifier_def
  getNotificationSize_def setProperty_def N_MAX_NOTIFICATIONS_def names
  NOTIFICATION_SPACING_def word_sless_alt word_le_nat_alt

text \<open>The sum of line 129, when it fits into an \<^verbatim>\<open>int\<close>.\<close>

lemma offset_advance:
  fixes h old :: cint
  assumes "0 \<le> sint h" and "sint old + sint h + 10 < 2 ^ 31"
  shows "sint ((h + old) + NOTIFICATION_SPACING) = sint old + sint h + 10"
proof -
  have low: "- (2 ^ 31) \<le> sint old" using sint_ge [of old] by simp
  with assms have "sint (h + old) = sint h + sint old"
    by (simp add: sint_word_ariths signed_take_bit_int_eq_self)
  with assms low show ?thesis
    by (simp add: NOTIFICATION_SPACING_def sint_word_ariths signed_take_bit_int_eq_self)
qed

lemma getNotificationSize_ok:
  assumes "getNotificationSize object p \<noteq> - 1"
  shows "getNotificationSize object p = fst (toInt object p)"
    and "snd (toInt object p)"
    and "0 \<le> sint (fst (toInt object p))"
  using assms unfolding getNotificationSize_def
  by (auto simp: word_sless_alt split: prod.splits if_splits)

lemma position_update:
  "position (object\<lparr>properties :=
      AList.update NOTIFICATION_PROPERTY_OFFSET (VInt v) (properties object)\<rparr>) = Some (sint v)"
  by (simp add: position_def update_conv')

lemma height_update: "height (object\<lparr>properties := ps\<rparr>) = height object"
  by (simp add: height_def)

text \<open>What a call of \<open>createNotification\<close> that returns a popup has done.\<close>

lemma createNotification_Some:
  fixes n :: "('n::{comm_ring_1,linorder}) Notifier"
  assumes "createNotification mk type n = Inr (Some popup, n')"
  shows "\<exists>object.
           mk (m_components type) = Some object \<and>
           snd (toInt object NOTIFICATION_PROPERTY_HEIGHT) \<and>
           writable object NOTIFICATION_PROPERTY_OFFSET \<and>
           popup = object\<lparr>properties :=
             AList.update NOTIFICATION_PROPERTY_OFFSET (VInt (m_offset n)) (properties object)\<rparr>"
    and "m_n_instances n < N_MAX_NOTIFICATIONS"
    and "0 \<le> height popup"
    and "position popup = Some (sint (m_offset n))"
    and "m_offset n'
           = (fst (toInt popup NOTIFICATION_PROPERTY_HEIGHT) + m_offset n) + NOTIFICATION_SPACING"
    and "m_n_instances n' = m_n_instances n + 1"
    and "trace n' = trace n @ [Lock, Read Instances, Read Offset, Read Offset, Write Offset,
            Read Instances, Write Instances, Unlock]"
proof -
  from assms show room: "m_n_instances n < N_MAX_NOTIFICATIONS"
    by (auto simp: createNotification_def prims Let_def split: if_splits)
  from assms room obtain object where object: "mk (m_components type) = Some object"
    by (auto simp: createNotification_def prims Let_def split: if_splits option.splits)
  let ?offset = "getNotificationSize object NOTIFICATION_PROPERTY_HEIGHT"
  from assms room object have size: "?offset \<noteq> - 1"
    by (auto simp: createNotification_def prims Let_def split: if_splits)
  note ok = getNotificationSize_ok [OF size]
  from assms room object size have w: "writable object NOTIFICATION_PROPERTY_OFFSET"
    by (auto simp: createNotification_def prims Let_def setProperty_def split: if_splits)
  from assms room object size w have
    popup: "popup = object\<lparr>properties :=
           AList.update NOTIFICATION_PROPERTY_OFFSET (VInt (m_offset n)) (properties object)\<rparr>"
    and n': "n' = n\<lparr>m_offset := (?offset + m_offset n) + NOTIFICATION_SPACING,
               m_n_instances := m_n_instances n + 1,
               trace := trace n @ [Lock, Read Instances, Read Offset, Read Offset, Write Offset,
                                   Read Instances, Write Instances, Unlock]\<rparr>"
    by (auto simp: createNotification_def prims Let_def setProperty_def split: if_splits)
  from object ok(2) w popup
  show "\<exists>object.
           mk (m_components type) = Some object \<and>
           snd (toInt object NOTIFICATION_PROPERTY_HEIGHT) \<and>
           writable object NOTIFICATION_PROPERTY_OFFSET \<and>
           popup = object\<lparr>properties :=
             AList.update NOTIFICATION_PROPERTY_OFFSET (VInt (m_offset n)) (properties object)\<rparr>"
    by blast
  from popup ok(3) show "0 \<le> height popup" by (simp add: height_def)
  from popup show "position popup = Some (sint (m_offset n))" by (simp add: position_update)
  from n' popup ok(1)
  show "m_offset n'
           = (fst (toInt popup NOTIFICATION_PROPERTY_HEIGHT) + m_offset n) + NOTIFICATION_SPACING"
    by simp
  from n' show "m_n_instances n' = m_n_instances n + 1"
    and "trace n' = trace n @ [Lock, Read Instances, Read Offset, Read Offset, Write Offset,
            Read Instances, Write Instances, Unlock]"
    by simp_all
qed

text \<open>What a call of \<open>createNotification\<close> that returns \<^verbatim>\<open>nullptr\<close> has done.\<close>

lemma createNotification_None:
  fixes n :: "('n::{comm_ring_1,linorder}) Notifier"
  assumes "createNotification mk type n = Inr (None, n')"
  shows "m_offset n' = m_offset n" and "m_n_instances n' = m_n_instances n"
    and "trace n' = trace n @ [Lock, Read Instances, Unlock] \<or>
         (\<exists>object. mk (m_components type) = Some object \<and>
            (trace n' = trace n @ [Lock, Read Instances, Delete object, Unlock] \<or>
             trace n' = trace n @ [Lock, Read Instances, Read Offset, Delete object, Unlock]))"
  using assms
  by (auto simp: createNotification_def prims Let_def setProperty_def
           split: if_splits option.splits)

text \<open>When a call of \<open>createNotification\<close> returns a popup.\<close>

lemma createNotification_succeeds:
  fixes n :: "('n::{comm_ring_1,linorder}) Notifier"
  assumes "m_n_instances n < N_MAX_NOTIFICATIONS"
    and "mk (m_components type) = Some object"
    and "snd (toInt object NOTIFICATION_PROPERTY_HEIGHT)"
    and "0 \<le> height object"
    and "writable object NOTIFICATION_PROPERTY_OFFSET"
  shows "\<exists>popup n'. createNotification mk type n = Inr (Some popup, n')"
proof -
  let ?h = "fst (toInt object NOTIFICATION_PROPERTY_HEIGHT)"
  from assms(3,4) have "getNotificationSize object NOTIFICATION_PROPERTY_HEIGHT = ?h"
    and "?h \<noteq> - 1"
    by (auto simp: getNotificationSize_def height_def word_sless_alt split: prod.splits)
  with assms(1,2,5) show ?thesis
    by (simp add: createNotification_def prims setProperty_def Let_def)
qed

lemma timers_append: "timers (xs @ ys) = timers xs @ timers ys"
  by (induction xs rule: timers.induct) simp_all

text \<open>What a call of \<open>showNotification\<close> that returns has done.\<close>

lemma showNotification_Inr:
  assumes "showNotification notification timeout n = Inr n'"
  shows "\<exists>window. findChild notification = Some window \<and>
     n' = n\<lparr>trace := trace n @ [InvokeMethod notification ''show'', ConnectVisibleChanged window,
              SingleShot (if 60000 <s timeout then 60000 else timeout) notification]\<rparr>"
  using assms
  by (auto simp: showNotification_def prims Let_def MAX_TIMEOUT_def names split: option.splits)

lemma showNotification_Some:
  "findChild notification = Some window \<Longrightarrow>
   showNotification notification timeout n =
     Inr (n\<lparr>trace := trace n @ [InvokeMethod notification ''show'', ConnectVisibleChanged window,
              SingleShot (if 60000 <s timeout then 60000 else timeout) notification]\<rparr>)"
  by (simp add: showNotification_def prims Let_def MAX_TIMEOUT_def names)

lemma showNotification_example:
  "showNotification (example_popup 120) t (example_notifier 130 1)
     = Inr \<lparr>m_offset = 130, m_n_instances = 1,
            trace = [InvokeMethod (example_popup 120) ''show'',
                     ConnectVisibleChanged (QQuickWindow 1),
                     SingleShot (if 60000 <s t then 60000 else t) (example_popup 120)]\<rparr>"
  by (simp add: showNotification_Some example_popup_def example_notifier_def)

subsection \<open>The capacity cutoff\<close>

text \<open>
  C1. A call of \<open>createNotification\<close> made while the instance counter is at
  \<open>N_MAX_NOTIFICATIONS\<close> (15) or above returns \<^verbatim>\<open>nullptr\<close>, and the counter and the offset
  are what they were before the call.
\<close>

theorem createNotification_at_capacity:
  fixes n :: "('n::{comm_ring_1,linorder}) Notifier"
  assumes "N_MAX_NOTIFICATIONS \<le> m_n_instances n"
  shows "\<exists>n'. createNotification mk type n = Inr (None, n') \<and>
              m_n_instances n' = m_n_instances n \<and> m_offset n' = m_offset n"
  using assms by (simp add: createNotification_def prims)

theorem createNotification_at_capacity_witness:
  "N_MAX_NOTIFICATIONS \<le> m_n_instances (example_notifier 1950 15) \<and>
   (\<exists>n'. createNotification (\<lambda>url. Some (example_popup 120)) MessageReceived (example_notifier 1950 15)
            = Inr (None, n') \<and>
          m_n_instances n' = 15 \<and> m_offset n' = 1950)"
  using createNotification_at_capacity
          [of "example_notifier 1950 15" "\<lambda>url. Some (example_popup 120)" MessageReceived]
  by (simp add: example_notifier_def N_MAX_NOTIFICATIONS_def)

subsection \<open>Stacking\<close>

text \<open>
  C2, as amended. A call of \<open>createNotification\<close> that returns a popup has given the popup
  the offset stored before the call as its position, and has stored the 32-bit sum of
  the popup's height, the old offset and the spacing of 10; the height is not negative.
  When the old offset plus the height plus 10 is an \<^verbatim>\<open>int\<close>, that is when it is below
  \<open>2 ^ 31\<close>, the stored offset is this number, and the popup of the next successful call
  is placed there, below this popup: the two do not overlap.
\<close>

theorem createNotification_stacks:
  fixes n :: "('n::{comm_ring_1,linorder}) Notifier"
  assumes "createNotification mk type n = Inr (Some popup, n')"
  shows "position popup = Some (sint (m_offset n)) \<and> 0 \<le> height popup \<and>
         (\<exists>object. mk (m_components type) = Some object \<and> height popup = height object) \<and>
         m_offset n'
           = (fst (toInt popup NOTIFICATION_PROPERTY_HEIGHT) + m_offset n) + NOTIFICATION_SPACING \<and>
         (sint (m_offset n) + height popup + 10 < 2 ^ 31 \<longrightarrow>
            sint (m_offset n') = sint (m_offset n) + height popup + 10 \<and>
            (\<forall>mk2 type2 popup2 n2.
               createNotification mk2 type2 n' = Inr (Some popup2, n2) \<longrightarrow>
               position popup2 = Some (sint (m_offset n) + height popup + 10)))"
proof -
  note first = createNotification_Some [OF assms]
  from first(1) have built: "\<exists>object. mk (m_components type) = Some object \<and>
      height popup = height object"
    by (auto simp: height_update)
  have fits: "sint (m_offset n') = sint (m_offset n) + height popup + 10 \<and>
            (\<forall>mk2 type2 popup2 n2.
               createNotification mk2 type2 n' = Inr (Some popup2, n2) \<longrightarrow>
               position popup2 = Some (sint (m_offset n) + height popup + 10))"
    if bound: "sint (m_offset n) + height popup + 10 < 2 ^ 31"
  proof -
    from offset_advance [of "fst (toInt popup NOTIFICATION_PROPERTY_HEIGHT)" "m_offset n"]
      first(3,5) bound
    have adv: "sint (m_offset n') = sint (m_offset n) + height popup + 10"
      by (simp add: height_def)
    have "position popup2 = Some (sint (m_offset n) + height popup + 10)"
      if "createNotification mk2 type2 n' = Inr (Some popup2, n2)" for mk2 type2 popup2 n2
      using createNotification_Some(4) [OF that] adv by simp
    with adv show ?thesis by blast
  qed
  from first(3,4,5) built fits show ?thesis by blast
qed

theorem createNotification_stacks_witness:
  "createNotification (\<lambda>url. Some (example_popup 120)) MessageReceived (example_notifier 0 0)
     = Inr (Some ((example_popup 120)\<lparr>properties := [(''notificationOffset'', VInt 0)]\<rparr>),
            \<lparr>m_offset = 130, m_n_instances = 1,
             trace = [Lock, Read Instances, Read Offset, Read Offset, Write Offset,
                      Read Instances, Write Instances, Unlock]\<rparr>) \<and>
   sint (m_offset (example_notifier 0 0))
     + height ((example_popup 120)\<lparr>properties := [(''notificationOffset'', VInt 0)]\<rparr>) + 10
     < 2 ^ 31 \<and>
   createNotification (\<lambda>url. Some (example_popup 80)) CallReceived
     \<lparr>m_offset = 130, m_n_instances = (1 :: 32 word),
      trace = [Lock, Read Instances, Read Offset, Read Offset, Write Offset,
               Read Instances, Write Instances, Unlock]\<rparr>
     = Inr (Some ((example_popup 80)\<lparr>properties := [(''notificationOffset'', VInt 130)]\<rparr>),
            \<lparr>m_offset = 220, m_n_instances = 2,
             trace = [Lock, Read Instances, Read Offset, Read Offset, Write Offset,
                      Read Instances, Write Instances, Unlock,
                      Lock, Read Instances, Read Offset, Read Offset, Write Offset,
                      Read Instances, Write Instances, Unlock]\<rparr>) \<and>
   position ((example_popup 120)\<lparr>properties := [(''notificationOffset'', VInt 0)]\<rparr>) = Some 0 \<and>
   position ((example_popup 80)\<lparr>properties := [(''notificationOffset'', VInt 130)]\<rparr>) = Some 130"
proof -
  have first:
    "createNotification (\<lambda>url. Some (example_popup 120)) MessageReceived (example_notifier 0 0)
     = Inr (Some ((example_popup 120)\<lparr>properties := [(''notificationOffset'', VInt 0)]\<rparr>),
            \<lparr>m_offset = 130, m_n_instances = 1,
             trace = [Lock, Read Instances, Read Offset, Read Offset, Write Offset,
                      Read Instances, Write Instances, Unlock]\<rparr>)"
    by (simp add: evaluate)
  have second:
    "createNotification (\<lambda>url. Some (example_popup 80)) CallReceived
     \<lparr>m_offset = 130, m_n_instances = (1 :: 32 word),
      trace = [Lock, Read Instances, Read Offset, Read Offset, Write Offset,
               Read Instances, Write Instances, Unlock]\<rparr>
     = Inr (Some ((example_popup 80)\<lparr>properties := [(''notificationOffset'', VInt 130)]\<rparr>),
            \<lparr>m_offset = 220, m_n_instances = 2,
             trace = [Lock, Read Instances, Read Offset, Read Offset, Write Offset,
                      Read Instances, Write Instances, Unlock,
                      Lock, Read Instances, Read Offset, Read Offset, Write Offset,
                      Read Instances, Write Instances, Unlock]\<rparr>)"
    by (simp add: evaluate)
  have fits: "sint (m_offset (example_notifier 0 0))
     + height ((example_popup 120)\<lparr>properties := [(''notificationOffset'', VInt 0)]\<rparr>) + 10
     < 2 ^ 31"
    by (simp add: height_def example_popup_def example_notifier_def)
  note stacked = createNotification_stacks [OF first]
  from stacked
  have one: "position ((example_popup 120)\<lparr>properties := [(''notificationOffset'', VInt 0)]\<rparr>)
               = Some 0"
    by (simp add: example_notifier_def)
  from stacked fits second
  have "position ((example_popup 80)\<lparr>properties := [(''notificationOffset'', VInt 130)]\<rparr>)
          = Some (sint (m_offset (example_notifier 0 0))
                  + height ((example_popup 120)\<lparr>properties := [(''notificationOffset'', VInt 0)]\<rparr>)
                  + 10)"
    by blast
  then
  have two: "position ((example_popup 80)\<lparr>properties := [(''notificationOffset'', VInt 130)]\<rparr>)
               = Some 130"
    by (simp add: height_def example_popup_def example_notifier_def)
  from first second fits one two show ?thesis by simp
qed

text \<open>
  C2, as stated, fails: the source adds without a check, so with a height of 2147483647
  on an offset of 1 the call returns the popup and the stored offset is not the old
  offset plus the height plus 10 but that number less \<open>2 ^ 32\<close>, a negative position above
  the popup just placed.
\<close>

theorem createNotification_stacks_counterexample:
  "createNotification (\<lambda>url. Some (example_popup 2147483647)) MessageReceived
     (example_notifier 1 0)
     = Inr (Some ((example_popup 2147483647)\<lparr>properties := [(''notificationOffset'', VInt 1)]\<rparr>),
            \<lparr>m_offset = 2147483658, m_n_instances = 1,
             trace = [Lock, Read Instances, Read Offset, Read Offset, Write Offset,
                      Read Instances, Write Instances, Unlock]\<rparr>) \<and>
   sint (2147483658 :: cint) = - 2147483638 \<and>
   sint (2147483658 :: cint) \<noteq> sint (1 :: cint) + height (example_popup 2147483647) + 10"
  by (simp add: evaluate height_def)

subsection \<open>Failure after the popup was built\<close>

text \<open>
  C8. When the counter is below the capacity, \<^verbatim>\<open>create()\<close> has built a popup, and the
  popup's height cannot be read as an integer, or is negative, or the popup refuses the
  property \<^verbatim>\<open>notificationOffset\<close>, then \<open>createNotification\<close> deletes the popup it built,
  unlocks, and returns \<^verbatim>\<open>nullptr\<close>, with the counter and the offset as they were before
  the call.
\<close>

theorem createNotification_failure_keeps_state:
  fixes n :: "('n::{comm_ring_1,linorder}) Notifier"
  assumes "m_n_instances n < N_MAX_NOTIFICATIONS"
    and "mk (m_components type) = Some object"
    and "\<not> snd (toInt object NOTIFICATION_PROPERTY_HEIGHT) \<or>
         fst (toInt object NOTIFICATION_PROPERTY_HEIGHT) <s 0 \<or>
         \<not> writable object NOTIFICATION_PROPERTY_OFFSET"
  shows "\<exists>n' before.
           createNotification mk type n = Inr (None, n') \<and>
           m_n_instances n' = m_n_instances n \<and> m_offset n' = m_offset n \<and>
           trace n' = trace n @ before @ [Delete object, Unlock]"
proof (cases "getNotificationSize object NOTIFICATION_PROPERTY_HEIGHT = - 1")
  case True
  with assms(1,2) show ?thesis
    by (auto simp: createNotification_def prims Let_def intro: exI [of _ "[Lock, Read Instances]"])
next
  case False
  with assms(3) have "\<not> writable object NOTIFICATION_PROPERTY_OFFSET"
    by (auto simp: getNotificationSize_def split: prod.splits if_splits)
  with False assms(1,2) show ?thesis
    by (auto simp: createNotification_def prims Let_def setProperty_def
        intro: exI [of _ "[Lock, Read Instances, Read Offset]"])
qed

theorem createNotification_failure_keeps_state_witness:
  "m_n_instances (example_notifier 130 1) < N_MAX_NOTIFICATIONS \<and>
   fst (toInt (example_popup (- 1)) NOTIFICATION_PROPERTY_HEIGHT) <s 0 \<and>
   (\<exists>n' before.
      createNotification (\<lambda>url. Some (example_popup (- 1))) MessageReceived
        (example_notifier 130 1) = Inr (None, n') \<and>
      m_n_instances n' = 1 \<and> m_offset n' = 130 \<and>
      trace n' = before @ [Delete (example_popup (- 1)), Unlock])"
proof -
  have room: "m_n_instances (example_notifier 130 1) < N_MAX_NOTIFICATIONS"
    by (simp add: example_notifier_def N_MAX_NOTIFICATIONS_def word_less_nat_alt)
  have negative: "fst (toInt (example_popup (- 1)) NOTIFICATION_PROPERTY_HEIGHT) <s 0"
    by (simp add: example_popup_def word_sless_alt)
  from createNotification_failure_keeps_state
         [of "example_notifier 130 1" "\<lambda>url. Some (example_popup (- 1))" MessageReceived
             "example_popup (- 1)"] room negative
  show ?thesis by (simp add: example_notifier_def)
qed

subsection \<open>Dismissal\<close>

text \<open>
  C3. Each run of the lambda connected to \<^verbatim>\<open>visibleChanged\<close> decrements the instance
  counter; when the resulting counter is zero the offset is reset to zero, and when it
  is not zero the offset is left as it was.
\<close>

theorem visibleChanged_resets_offset:
  fixes n :: "('n::{comm_ring_1,linorder}) Notifier"
  shows "m_n_instances (visibleChanged_lambda visible n) = m_n_instances n - 1 \<and>
         (m_n_instances (visibleChanged_lambda visible n) = 0 \<longrightarrow>
            m_offset (visibleChanged_lambda visible n) = 0) \<and>
         (m_n_instances (visibleChanged_lambda visible n) \<noteq> 0 \<longrightarrow>
            m_offset (visibleChanged_lambda visible n) = m_offset n)"
  by (simp add: visibleChanged_lambda_def prims Let_def)

theorem visibleChanged_resets_offset_witness:
  "m_n_instances (visibleChanged_lambda False (example_notifier 130 1)) = 0 \<and>
   m_offset (visibleChanged_lambda False (example_notifier 130 1)) = 0 \<and>
   m_n_instances (visibleChanged_lambda False (example_notifier 220 2)) = 1 \<and>
   m_offset (visibleChanged_lambda False (example_notifier 220 2)) = 220"
  using visibleChanged_resets_offset [of False "example_notifier 130 1"]
        visibleChanged_resets_offset [of False "example_notifier 220 2"]
  by (simp add: example_notifier_def)

subsection \<open>The timeout\<close>

text \<open>
  C4. Whatever timeout is requested, a call of \<open>showNotification\<close> either starts exactly
  one single-shot timer, on this notification, whose duration is the smaller of the
  requested timeout and 60000 and so never exceeds \<open>MAX_TIMEOUT\<close>, or the notification has
  no window and the program is ended by \<^verbatim>\<open>qFatal\<close> without any timer.
\<close>

theorem showNotification_timeout_bounded:
  "(\<exists>d n'. showNotification notification timeout n = Inr n' \<and>
            timers (trace n') = timers (trace n) @ [(d, notification)] \<and>
            sint d = min (sint timeout) 60000 \<and> sint d \<le> sint MAX_TIMEOUT) \<or>
   (findChild notification = None \<and> showNotification notification timeout n = Inl Fatal)"
  by (cases "findChild notification")
     (auto simp: showNotification_def prims Let_def MAX_TIMEOUT_def timers_append word_sless_alt)

theorem showNotification_timeout_bounded_witness:
  "\<exists>d n'. showNotification (example_popup 120) 90000 (example_notifier 130 1) = Inr n' \<and>
          timers (trace n') = [(d, example_popup 120)] \<and> sint d = 60000"
  using showNotification_timeout_bounded [of "example_popup 120" 90000 "example_notifier 130 1"]
  by (auto simp: example_notifier_def example_popup_def)

text \<open>
  C9. The clamp is one-sided. In a call of \<open>showNotification\<close> that returns, a timeout of
  at most 60000, zero and the negative values included, is the duration of the timer as
  it is; only a timeout above 60000 is replaced, by \<open>MAX_TIMEOUT\<close>. No lower bound is
  applied.
\<close>

theorem timeout_clamp_one_sided:
  assumes "showNotification notification timeout n = Inr n'"
  shows "(sint timeout \<le> 60000 \<longrightarrow>
            timers (trace n') = timers (trace n) @ [(timeout, notification)]) \<and>
         (60000 < sint timeout \<longrightarrow>
            timers (trace n') = timers (trace n) @ [(MAX_TIMEOUT, notification)])"
  using showNotification_Inr [OF assms]
  by (auto simp: timers_append word_sless_alt MAX_TIMEOUT_def)

theorem timeout_clamp_one_sided_witness:
  "showNotification (example_popup 120) (- 5) (example_notifier 130 1)
     = Inr \<lparr>m_offset = 130, m_n_instances = 1,
            trace = [InvokeMethod (example_popup 120) ''show'',
                     ConnectVisibleChanged (QQuickWindow 1),
                     SingleShot (- 5) (example_popup 120)]\<rparr> \<and>
   sint (- 5 :: cint) \<le> 60000 \<and>
   timers [InvokeMethod (example_popup 120) ''show'', ConnectVisibleChanged (QQuickWindow 1),
           SingleShot (- 5) (example_popup 120)] = [(- 5, example_popup 120)] \<and>
   showNotification (example_popup 120) 60001 (example_notifier 130 1)
     = Inr \<lparr>m_offset = 130, m_n_instances = 1,
            trace = [InvokeMethod (example_popup 120) ''show'',
                     ConnectVisibleChanged (QQuickWindow 1),
                     SingleShot 60000 (example_popup 120)]\<rparr> \<and>
   60000 < sint (60001 :: cint) \<and>
   timers [InvokeMethod (example_popup 120) ''show'', ConnectVisibleChanged (QQuickWindow 1),
           SingleShot 60000 (example_popup 120)] = [(MAX_TIMEOUT, example_popup 120)]"
  using timeout_clamp_one_sided [OF showNotification_example [of "- 5"]]
        timeout_clamp_one_sided [OF showNotification_example [of 60001]]
        showNotification_example [of "- 5"] showNotification_example [of 60001]
  by (simp add: word_sless_alt example_notifier_def MAX_TIMEOUT_def)

subsection \<open>Teardown\<close>

text \<open>
  C5. A call of \<open>showNotification\<close> that returns has invoked \<^verbatim>\<open>show\<close>, connected the
  dismissal lambda to \<^verbatim>\<open>visibleChanged\<close> of the notification's window, and started one
  single-shot timer of the clamped timeout on the notification. The timer's lambda
  deletes the notification and does not touch the counter; each run of the dismissal
  lambda, whatever the new visibility, decrements the counter by one.
\<close>

theorem notification_torn_down:
  fixes n :: "('n::{comm_ring_1,linorder}) Notifier"
  assumes "showNotification notification timeout n = Inr n'"
  shows "\<exists>window d.
           findChild notification = Some window \<and>
           trace n' = trace n @ [InvokeMethod notification ''show'',
                                 ConnectVisibleChanged window, SingleShot d notification] \<and>
           sint d = min (sint timeout) 60000 \<and>
           (\<forall>m :: 'n Notifier.
              trace (singleShot_lambda notification m) = trace m @ [Delete notification] \<and>
              m_n_instances (singleShot_lambda notification m) = m_n_instances m) \<and>
           (\<forall>visible. \<forall>m :: 'n Notifier.
              m_n_instances (visibleChanged_lambda visible m) = m_n_instances m - 1 \<and>
              m_n_instances (visibleChanged_lambda visible m) \<noteq> m_n_instances m)"
proof -
  from showNotification_Inr [OF assms] obtain window where
    w: "findChild notification = Some window"
    and n': "n' = n\<lparr>trace := trace n @ [InvokeMethod notification ''show'',
              ConnectVisibleChanged window,
              SingleShot (if 60000 <s timeout then 60000 else timeout) notification]\<rparr>"
    by blast
  have d: "sint (if 60000 <s timeout then 60000 else timeout) = min (sint timeout) 60000"
    by (simp add: word_sless_alt)
  have timer: "trace (singleShot_lambda notification m) = trace m @ [Delete notification] \<and>
              m_n_instances (singleShot_lambda notification m) = m_n_instances m"
    for m :: "'n Notifier"
    by (simp add: singleShot_lambda_def prims)
  have dismissal: "m_n_instances (visibleChanged_lambda visible m) = m_n_instances m - 1 \<and>
              m_n_instances (visibleChanged_lambda visible m) \<noteq> m_n_instances m"
    for visible and m :: "'n Notifier"
    by (simp add: visibleChanged_lambda_def prims Let_def)
  from w n' d timer dismissal show ?thesis by auto
qed

theorem notification_torn_down_witness:
  "showNotification (example_popup 120) 10000 (example_notifier 130 1)
     = Inr \<lparr>m_offset = 130, m_n_instances = 1,
            trace = [InvokeMethod (example_popup 120) ''show'',
                     ConnectVisibleChanged (QQuickWindow 1),
                     SingleShot 10000 (example_popup 120)]\<rparr> \<and>
   trace (singleShot_lambda (example_popup 120) (example_notifier 130 1))
     = [Delete (example_popup 120)] \<and>
   m_n_instances (visibleChanged_lambda False (example_notifier 130 1)) = 0"
proof -
  have shown: "showNotification (example_popup 120) 10000 (example_notifier 130 1)
     = Inr \<lparr>m_offset = 130, m_n_instances = 1,
            trace = [InvokeMethod (example_popup 120) ''show'',
                     ConnectVisibleChanged (QQuickWindow 1),
                     SingleShot 10000 (example_popup 120)]\<rparr>"
    using showNotification_example [of 10000] by (simp add: word_sless_alt)
  from notification_torn_down [OF shown]
  have "trace (singleShot_lambda (example_popup 120) (example_notifier 130 1))
          = trace (example_notifier 130 1) @ [Delete (example_popup 120)]"
    and "m_n_instances (visibleChanged_lambda False (example_notifier 130 1))
          = m_n_instances (example_notifier 130 1) - 1"
    by blast+
  with shown show ?thesis by (simp add: example_notifier_def)
qed

subsection \<open>The notify operations\<close>

lemmas timeouts = NOTIFICATION_TIMEOUT_RECEIVED_MESSAGE_def
  NOTIFICATION_TIMEOUT_RECEIVED_FILE_MESSAGE_def NOTIFICATION_TIMEOUT_RECEIVED_CALL_def

text \<open>What the three notify operations do once \<open>createNotification\<close> has returned a popup.\<close>

lemma notifyReceivedMessage_Some:
  fixes n :: "('n::{comm_ring_1,linorder}) Notifier"
  assumes "createNotification (create env) MessageReceived n = Inr (Some popup, n1)"
  shows "notifyReceivedMessage env message n =
     showNotification (snd (setProperty popup NOTIFICATION_PROPERTY_DATA (VMap
       [(''message'', VString (linphoneStringToQString env (getText message))),
        (''sipAddress'', VString (linphoneStringToQString env (getFromAddress message))),
        (''window'', VWindow (getMainWindow env))]))) 10000 n1"
  using assms by (simp add: notifyReceivedMessage_def Let_def timeouts split: prod.splits)

lemma notifyReceivedFileMessage_Some:
  fixes n :: "('n::{comm_ring_1,linorder}) Notifier"
  assumes "createNotification (create env) FileMessageReceived n = Inr (Some popup, n1)"
  shows "notifyReceivedFileMessage env message n =
     showNotification (snd (setProperty popup NOTIFICATION_PROPERTY_DATA (VMap
       [(''fileUri'', VString (linphoneStringToQString env (getFileTransferFilepath message))),
        (''fileSize'', VULongLong (of_nat (getFileTransferInformation message)))]))) 10000 n1"
  using assms by (simp add: notifyReceivedFileMessage_def Let_def timeouts split: prod.splits)

lemma notifyReceivedCall_Some:
  fixes n :: "('n::{comm_ring_1,linorder}) Notifier"
  assumes "createNotification (create env) CallReceived n = Inr (Some popup, n1)"
  shows "notifyReceivedCall env call n =
     showNotification (snd (setProperty popup NOTIFICATION_PROPERTY_DATA (VMap
       [(''call'', VCallModel (getCall env call))]))) 10000
       (perform (ConnectStatusChanged (getCall env call) popup) n1)"
  using assms by (simp add: notifyReceivedCall_def Let_def timeouts split: prod.splits)

text \<open>
  The notification that is shown: the popup returned by \<open>createNotification\<close>, after the
  call of \<open>setProperty\<close> with the data.
\<close>

lemma shown_notification:
  fixes n :: "('n::{comm_ring_1,linorder}) Notifier" and n2 :: "'m Notifier"
  assumes "createNotification mk type n = Inr (Some popup, n1)"
    and "findChild popup = Some window"
  shows "showNotification (snd (setProperty popup NOTIFICATION_PROPERTY_DATA data)) 10000 n2
           = Inr (n2\<lparr>trace := trace n2 @
               [InvokeMethod (snd (setProperty popup NOTIFICATION_PROPERTY_DATA data)) ''show'',
                ConnectVisibleChanged window,
                SingleShot 10000 (snd (setProperty popup NOTIFICATION_PROPERTY_DATA data))]\<rparr>)"
    and "\<exists>object ps. mk (m_components type) = Some object \<and>
           snd (setProperty popup NOTIFICATION_PROPERTY_DATA data) = object\<lparr>properties := ps\<rparr>"
    and "writable popup NOTIFICATION_PROPERTY_DATA \<Longrightarrow>
         notificationData (snd (setProperty popup NOTIFICATION_PROPERTY_DATA data)) = Some data"
proof -
  have "findChild (snd (setProperty popup NOTIFICATION_PROPERTY_DATA data)) = Some window"
    using assms(2) by (simp add: setProperty_def)
  from showNotification_Some [OF this, of 10000 n2]
  show "showNotification (snd (setProperty popup NOTIFICATION_PROPERTY_DATA data)) 10000 n2
           = Inr (n2\<lparr>trace := trace n2 @
               [InvokeMethod (snd (setProperty popup NOTIFICATION_PROPERTY_DATA data)) ''show'',
                ConnectVisibleChanged window,
                SingleShot 10000 (snd (setProperty popup NOTIFICATION_PROPERTY_DATA data))]\<rparr>)"
    by (simp add: word_sless_alt)
  from createNotification_Some(1) [OF assms(1)]
  show "\<exists>object ps. mk (m_components type) = Some object \<and>
           snd (setProperty popup NOTIFICATION_PROPERTY_DATA data) = object\<lparr>properties := ps\<rparr>"
    by (auto simp: setProperty_def)
  show "notificationData (snd (setProperty popup NOTIFICATION_PROPERTY_DATA data)) = Some data"
    if "writable popup NOTIFICATION_PROPERTY_DATA"
    using that by (simp add: setProperty_def notificationData_def update_conv')
qed

lemma shown_append: "shown (xs @ ys) = shown xs @ shown ys"
  by (induction xs rule: shown.induct) simp_all

lemma createNotification_example:
  "createNotification (create example_env) type (example_notifier 0 0)
     = Inr (Some ((example_popup 120)\<lparr>properties := [(''notificationOffset'', VInt 0)]\<rparr>),
            \<lparr>m_offset = 130, m_n_instances = 1,
             trace = [Lock, Read Instances, Read Offset, Read Offset, Write Offset,
                      Read Instances, Write Instances, Unlock]\<rparr>)"
  by (simp add: evaluate example_env_def)

text \<open>
  C6, as amended. When \<open>createNotification\<close> returns a popup and the popup has a window,
  each notify operation calls \<open>setProperty\<close> on the popup for \<^verbatim>\<open>notificationData\<close> and shows
  the result, with a timer of 10000 milliseconds. What is shown is the object built by
  \<^verbatim>\<open>create()\<close> of the component of the operation's own kind, with properties set, and when the popup
  accepts the property its data are: for a chat message the converted text and sender
  address and, besides them, the application's main window; for a file message the
  converted file path and the file size; for a call the call model, to whose signal
  \<^verbatim>\<open>statusChanged\<close> a lambda is connected that hides the notification's window on
  \<^verbatim>\<open>CallStatusEnded\<close> and does nothing on any other status.
\<close>

theorem notify_forwards_data:
  fixes n :: "('n::{comm_ring_1,linorder}) Notifier"
  shows
   "(\<forall>popup n1 window.
       createNotification (create env) MessageReceived n = Inr (Some popup, n1) \<and>
       findChild popup = Some window \<longrightarrow>
       (\<exists>notification n'.
          notifyReceivedMessage env message n = Inr n' \<and>
          trace n' = trace n1 @ [InvokeMethod notification ''show'',
                                 ConnectVisibleChanged window, SingleShot 10000 notification] \<and>
          (\<exists>object ps. create env QML_NOTIFICATION_PATH_RECEIVED_MESSAGE = Some object \<and>
                        notification = object\<lparr>properties := ps\<rparr>) \<and>
          (writable popup NOTIFICATION_PROPERTY_DATA \<longrightarrow>
           notificationData notification = Some (VMap
             [(''message'', VString (linphoneStringToQString env (getText message))),
              (''sipAddress'', VString (linphoneStringToQString env (getFromAddress message))),
              (''window'', VWindow (getMainWindow env))])))) \<and>
    (\<forall>popup n1 window.
       createNotification (create env) FileMessageReceived n = Inr (Some popup, n1) \<and>
       findChild popup = Some window \<longrightarrow>
       (\<exists>notification n'.
          notifyReceivedFileMessage env message n = Inr n' \<and>
          trace n' = trace n1 @ [InvokeMethod notification ''show'',
                                 ConnectVisibleChanged window, SingleShot 10000 notification] \<and>
          (\<exists>object ps. create env QML_NOTIFICATION_PATH_RECEIVED_FILE_MESSAGE = Some object \<and>
                        notification = object\<lparr>properties := ps\<rparr>) \<and>
          (writable popup NOTIFICATION_PROPERTY_DATA \<longrightarrow>
           notificationData notification = Some (VMap
             [(''fileUri'',
                 VString (linphoneStringToQString env (getFileTransferFilepath message))),
              (''fileSize'', VULongLong (of_nat (getFileTransferInformation message)))])))) \<and>
    (\<forall>popup n1 window.
       createNotification (create env) CallReceived n = Inr (Some popup, n1) \<and>
       findChild popup = Some window \<longrightarrow>
       (\<exists>notification n'.
          notifyReceivedCall env call n = Inr n' \<and>
          trace n' = trace n1 @ [ConnectStatusChanged (getCall env call) popup,
                                 InvokeMethod notification ''show'',
                                 ConnectVisibleChanged window, SingleShot 10000 notification] \<and>
          (\<exists>object ps. create env QML_NOTIFICATION_PATH_RECEIVED_CALL = Some object \<and>
                        notification = object\<lparr>properties := ps\<rparr>) \<and>
          (writable popup NOTIFICATION_PROPERTY_DATA \<longrightarrow>
           notificationData notification
             = Some (VMap [(''call'', VCallModel (getCall env call))])) \<and>
          (\<forall>m :: 'n Notifier.
             statusChanged_lambda popup CallStatusEnded m
               = Inr (perform (SetVisible window False) m)) \<and>
          (\<forall>k. \<forall>m :: 'n Notifier. statusChanged_lambda popup (CallStatusOther k) m = Inr m)))"
proof (intro conjI allI impI; elim conjE)
  fix popup window and n1 :: "'n Notifier"
  assume made: "createNotification (create env) MessageReceived n = Inr (Some popup, n1)"
    and window: "findChild popup = Some window"
  let ?data = "VMap
             [(''message'', VString (linphoneStringToQString env (getText message))),
              (''sipAddress'', VString (linphoneStringToQString env (getFromAddress message))),
              (''window'', VWindow (getMainWindow env))]"
  let ?shown = "snd (setProperty popup NOTIFICATION_PROPERTY_DATA ?data)"
  let ?n' = "n1\<lparr>trace := trace n1 @
               [InvokeMethod ?shown ''show'', ConnectVisibleChanged window,
                SingleShot 10000 ?shown]\<rparr>"
  from notifyReceivedMessage_Some [OF made] shown_notification(1) [OF made window]
  have run: "notifyReceivedMessage env message n = Inr ?n'"
    by simp
  have ops: "trace ?n' = trace n1 @ [InvokeMethod ?shown ''show'',
      ConnectVisibleChanged window, SingleShot 10000 ?shown]"
    by (simp add: perform_def)
  from shown_notification(2) [OF made window]
  have built: "\<exists>object ps. create env QML_NOTIFICATION_PATH_RECEIVED_MESSAGE = Some object \<and>
      ?shown = object\<lparr>properties := ps\<rparr>"
    by simp
  note data = shown_notification(3) [OF made window, of ?data]
  from run ops built data
  show "\<exists>notification n'.
          notifyReceivedMessage env message n = Inr n' \<and>
          trace n' = trace n1 @ [InvokeMethod notification ''show'',
                                 ConnectVisibleChanged window, SingleShot 10000 notification] \<and>
          (\<exists>object ps. create env QML_NOTIFICATION_PATH_RECEIVED_MESSAGE = Some object \<and>
                        notification = object\<lparr>properties := ps\<rparr>) \<and>
          (writable popup NOTIFICATION_PROPERTY_DATA \<longrightarrow>
           notificationData notification = Some ?data)"
    by blast
next
  fix popup window and n1 :: "'n Notifier"
  assume made: "createNotification (create env) FileMessageReceived n = Inr (Some popup, n1)"
    and window: "findChild popup = Some window"
  let ?data = "VMap
             [(''fileUri'',
                 VString (linphoneStringToQString env (getFileTransferFilepath message))),
              (''fileSize'', VULongLong (of_nat (getFileTransferInformation message)))]"
  let ?shown = "snd (setProperty popup NOTIFICATION_PROPERTY_DATA ?data)"
  let ?n' = "n1\<lparr>trace := trace n1 @
               [InvokeMethod ?shown ''show'', ConnectVisibleChanged window,
                SingleShot 10000 ?shown]\<rparr>"
  from notifyReceivedFileMessage_Some [OF made] shown_notification(1) [OF made window]
  have run: "notifyReceivedFileMessage env message n = Inr ?n'"
    by simp
  have ops: "trace ?n' = trace n1 @ [InvokeMethod ?shown ''show'',
      ConnectVisibleChanged window, SingleShot 10000 ?shown]"
    by (simp add: perform_def)
  from shown_notification(2) [OF made window]
  have built: "\<exists>object ps. create env QML_NOTIFICATION_PATH_RECEIVED_FILE_MESSAGE = Some object \<and>
      ?shown = object\<lparr>properties := ps\<rparr>"
    by simp
  note data = shown_notification(3) [OF made window, of ?data]
  from run ops built data
  show "\<exists>notification n'.
          notifyReceivedFileMessage env message n = Inr n' \<and>
          trace n' = trace n1 @ [InvokeMethod notification ''show'',
                                 ConnectVisibleChanged window, SingleShot 10000 notification] \<and>
          (\<exists>object ps. create env QML_NOTIFICATION_PATH_RECEIVED_FILE_MESSAGE = Some object \<and>
                        notification = object\<lparr>properties := ps\<rparr>) \<and>
          (writable popup NOTIFICATION_PROPERTY_DATA \<longrightarrow>
           notificationData notification = Some ?data)"
    by blast
next
  fix popup window and n1 :: "'n Notifier"
  assume made: "createNotification (create env) CallReceived n = Inr (Some popup, n1)"
    and window: "findChild popup = Some window"
  let ?data = "VMap [(''call'', VCallModel (getCall env call))]"
  let ?shown = "snd (setProperty popup NOTIFICATION_PROPERTY_DATA ?data)"
  let ?n' = "(perform (ConnectStatusChanged (getCall env call) popup) n1)\<lparr>trace := trace (perform (ConnectStatusChanged (getCall env call) popup) n1) @
               [InvokeMethod ?shown ''show'', ConnectVisibleChanged window,
                SingleShot 10000 ?shown]\<rparr>"
  from notifyReceivedCall_Some [OF made] shown_notification(1) [OF made window]
  have run: "notifyReceivedCall env call n = Inr ?n'"
    by simp
  have ops: "trace ?n' = trace n1 @ [ConnectStatusChanged (getCall env call) popup,
      InvokeMethod ?shown ''show'',
      ConnectVisibleChanged window, SingleShot 10000 ?shown]"
    by (simp add: perform_def)
  from shown_notification(2) [OF made window]
  have built: "\<exists>object ps. create env QML_NOTIFICATION_PATH_RECEIVED_CALL = Some object \<and>
      ?shown = object\<lparr>properties := ps\<rparr>"
    by simp
  note data = shown_notification(3) [OF made window, of ?data]
  have hides: "statusChanged_lambda popup CallStatusEnded m
                 = Inr (perform (SetVisible window False) m)" for m :: "'n Notifier"
    by (simp add: statusChanged_lambda_def window)
  have ignores: "statusChanged_lambda popup (CallStatusOther k) m = Inr m"
    for k and m :: "'n Notifier"
    by (simp add: statusChanged_lambda_def)
  from run ops built data hides ignores
  show "\<exists>notification n'.
          notifyReceivedCall env call n = Inr n' \<and>
          trace n' = trace n1 @ [ConnectStatusChanged (getCall env call) popup,
      InvokeMethod notification ''show'',
                                 ConnectVisibleChanged window, SingleShot 10000 notification] \<and>
          (\<exists>object ps. create env QML_NOTIFICATION_PATH_RECEIVED_CALL = Some object \<and>
                        notification = object\<lparr>properties := ps\<rparr>) \<and>
          (writable popup NOTIFICATION_PROPERTY_DATA \<longrightarrow>
           notificationData notification = Some ?data) \<and>
          (\<forall>m :: 'n Notifier.
             statusChanged_lambda popup CallStatusEnded m
               = Inr (perform (SetVisible window False) m)) \<and>
          (\<forall>k. \<forall>m :: 'n Notifier. statusChanged_lambda popup (CallStatusOther k) m = Inr m)"
    by blast
qed

theorem notify_forwards_data_witness:
  "createNotification (create example_env) MessageReceived (example_notifier 0 0)
     = Inr (Some ((example_popup 120)\<lparr>properties := [(''notificationOffset'', VInt 0)]\<rparr>),
            \<lparr>m_offset = 130, m_n_instances = 1,
             trace = [Lock, Read Instances, Read Offset, Read Offset, Write Offset,
                      Read Instances, Write Instances, Unlock]\<rparr>) \<and>
   writable ((example_popup 120)\<lparr>properties := [(''notificationOffset'', VInt 0)]\<rparr>)
     NOTIFICATION_PROPERTY_DATA \<and>
   findChild ((example_popup 120)\<lparr>properties := [(''notificationOffset'', VInt 0)]\<rparr>)
     = Some (QQuickWindow 1) \<and>
   forwarded (notifyReceivedMessage example_env example_message (example_notifier 0 0))
     = [Some (VMap [(''message'', VString ''hello''),
                    (''sipAddress'', VString ''sip:alice@example.org''),
                    (''window'', VWindow (QQuickWindow 0))])] \<and>
   forwarded (notifyReceivedFileMessage example_env example_message (example_notifier 0 0))
     = [Some (VMap [(''fileUri'', VString ''/tmp/a.png''), (''fileSize'', VULongLong 2048)])] \<and>
   forwarded (notifyReceivedCall example_env (Call 3) (example_notifier 0 0))
     = [Some (VMap [(''call'', VCallModel (CallModel 5))])]"
proof -
  let ?popup = "(example_popup 120)\<lparr>properties := [(''notificationOffset'', VInt 0)]\<rparr>"
  have w: "writable ?popup NOTIFICATION_PROPERTY_DATA"
    and f: "findChild ?popup = Some (QQuickWindow 1)"
    by (simp_all add: example_popup_def)
  note forwards = notify_forwards_data
    [of example_env "example_notifier 0 0" example_message "Call 3"]
  from forwards createNotification_example [of MessageReceived] w f
  have "\<exists>notification n'.
          notifyReceivedMessage example_env example_message (example_notifier 0 0) = Inr n' \<and>
          shown (trace n') = [notification] \<and>
          notificationData notification = Some (VMap
            [(''message'', VString ''hello''),
             (''sipAddress'', VString ''sip:alice@example.org''),
             (''window'', VWindow (QQuickWindow 0))])"
    by (fastforce simp: example_env_def example_message_def names)
  then have message: "forwarded (notifyReceivedMessage example_env example_message (example_notifier 0 0))
     = [Some (VMap [(''message'', VString ''hello''),
                    (''sipAddress'', VString ''sip:alice@example.org''),
                    (''window'', VWindow (QQuickWindow 0))])]"
    by (auto simp: forwarded_def)
  from forwards createNotification_example [of FileMessageReceived] w f
  have "\<exists>notification n'.
          notifyReceivedFileMessage example_env example_message (example_notifier 0 0) = Inr n' \<and>
          shown (trace n') = [notification] \<and>
          notificationData notification = Some (VMap
            [(''fileUri'', VString ''/tmp/a.png''), (''fileSize'', VULongLong 2048)])"
    by (fastforce simp: example_env_def example_message_def names)
  then have files: "forwarded (notifyReceivedFileMessage example_env example_message (example_notifier 0 0))
     = [Some (VMap [(''fileUri'', VString ''/tmp/a.png''), (''fileSize'', VULongLong 2048)])]"
    by (auto simp: forwarded_def)
  from forwards createNotification_example [of CallReceived] w f
  have "\<exists>notification n'.
          notifyReceivedCall example_env (Call 3) (example_notifier 0 0) = Inr n' \<and>
          shown (trace n') = [notification] \<and>
          notificationData notification = Some (VMap [(''call'', VCallModel (CallModel 5))])"
    by (fastforce simp: example_env_def example_message_def names)
  then have call: "forwarded (notifyReceivedCall example_env (Call 3) (example_notifier 0 0))
     = [Some (VMap [(''call'', VCallModel (CallModel 5))])]"
    by (auto simp: forwarded_def)
  from createNotification_example [of MessageReceived] w f message files call
  show ?thesis by simp
qed

text \<open>
  C6, as stated, fails: the data forwarded for a chat message is not the text and the
  sender address only, the map has a third entry, the main window.
\<close>

theorem chat_message_data_counterexample:
  "forwarded (notifyReceivedMessage example_env example_message (example_notifier 0 0))
     = [Some (VMap [(''message'', VString ''hello''),
                    (''sipAddress'', VString ''sip:alice@example.org''),
                    (''window'', VWindow (QQuickWindow 0))])] \<and>
   forwarded (notifyReceivedMessage example_env example_message (example_notifier 0 0))
     \<noteq> [Some (VMap [(''message'', VString ''hello''),
                    (''sipAddress'', VString ''sip:alice@example.org'')])]"
  by (simp add: forwarded_def notifyReceivedMessage_def showNotification_def evaluate
      example_env_def example_message_def notificationData_def timeouts MAX_TIMEOUT_def Let_def)

subsection \<open>The locking discipline\<close>

text \<open>
  A notify operation that returns is a call of \<open>createNotification\<close>, followed, when a
  popup was returned, by operations outside the mutex that leave the two members alone
  and a call of \<open>showNotification\<close>.
\<close>

lemma notify_step:
  fixes n :: "('n::{comm_ring_1,linorder}) Notifier"
  assumes "step e n = Inr n'"
    and "e = ReceivedMessage env message \<and> type = MessageReceived \<or>
         e = ReceivedFileMessage env message \<and> type = FileMessageReceived \<or>
         e = ReceivedCall env call \<and> type = CallReceived"
  shows "\<exists>n1. createNotification (create env) type n = Inr (created e n, n1) \<and>
           (case created e n of
              None \<Rightarrow> n' = n1
            | Some popup \<Rightarrow>
                \<exists>notification n2 ops.
                  accounted n1 n2 ops \<and> m_offset n2 = m_offset n1 \<and>
                  m_n_instances n2 = m_n_instances n1 \<and>
                  showNotification notification 10000 n2 = Inr n')"
proof -
  obtain r where made: "createNotification (create env) type n = Inr r"
    using assms
    by (cases "createNotification (create env) type n")
       (auto simp: notifyReceivedMessage_def notifyReceivedFileMessage_def
          notifyReceivedCall_def)
  obtain result n1 where r: "r = (result, n1)" by (cases r)
  from made r assms(2) have result: "created e n = result" by auto
  show ?thesis
  proof (cases result)
    case None
    with assms made r result show ?thesis
      by (auto simp: notifyReceivedMessage_def notifyReceivedFileMessage_def
          notifyReceivedCall_def)
  next
    case (Some popup)
    have plain: "accounted n1 n1 [] \<and> m_offset n1 = m_offset n1 \<and>
        m_n_instances n1 = m_n_instances n1"
      by (simp add: accounted_def)
    let ?n2 = "perform (ConnectStatusChanged (getCall env call) popup) n1"
    have connected:
      "accounted n1 ?n2 [ConnectStatusChanged (getCall env call) popup] \<and>
       m_offset ?n2 = m_offset n1 \<and> m_n_instances ?n2 = m_n_instances n1"
      by (simp add: perform_def accounted_def)
    from assms(2) consider
      (message) "e = ReceivedMessage env message" "type = MessageReceived" |
      (files) "e = ReceivedFileMessage env message" "type = FileMessageReceived" |
      (call) "e = ReceivedCall env call" "type = CallReceived"
      by blast
    then have "\<exists>notification n2 ops.
                  accounted n1 n2 ops \<and> m_offset n2 = m_offset n1 \<and>
                  m_n_instances n2 = m_n_instances n1 \<and>
                  showNotification notification 10000 n2 = Inr n'"
    proof cases
      case message
      with assms(1) made r Some notifyReceivedMessage_Some [of env n popup n1 message]
      have "\<exists>notification. showNotification notification 10000 n1 = Inr n'" by auto
      with plain show ?thesis by blast
    next
      case files
      with assms(1) made r Some notifyReceivedFileMessage_Some [of env n popup n1 message]
      have "\<exists>notification. showNotification notification 10000 n1 = Inr n'" by auto
      with plain show ?thesis by blast
    next
      case call
      with assms(1) made r Some notifyReceivedCall_Some [of env n popup n1 call]
      have "\<exists>notification. showNotification notification 10000 ?n2 = Inr n'" by auto
      with connected show ?thesis by blast
    qed
    with made r result Some show ?thesis by simp
  qed
qed

lemma guarded_append:
  "guarded held xs \<Longrightarrow> guarded False ys \<Longrightarrow> guarded held (xs @ ys)"
  by (induction held xs rule: guarded.induct) auto

lemma accounted_trans:
  assumes "accounted n n1 ops1" and "accounted n1 n2 ops2"
  shows "accounted n n2 (ops1 @ ops2)"
  using assms unfolding accounted_def by (auto intro: guarded_append)

text \<open>The exact operations of the dismissal lambda, and what it does to the members.\<close>

lemma visibleChanged_trace:
  fixes n :: "('n::{comm_ring_1,linorder}) Notifier"
  shows "trace (visibleChanged_lambda visible n)
           = trace n @ (if m_n_instances n - 1 = 0
                        then [Lock, Read Instances, Write Instances, Read Instances,
                              Write Offset, Unlock]
                        else [Lock, Read Instances, Write Instances, Read Instances, Unlock])"
    and "m_n_instances (visibleChanged_lambda visible n) = m_n_instances n - 1"
    and "m_offset (visibleChanged_lambda visible n)
           = (if m_n_instances n - 1 = 0 then 0 else m_offset n)"
  by (simp_all add: visibleChanged_lambda_def prims Let_def)

lemma createNotification_accounted:
  fixes n :: "('n::{comm_ring_1,linorder}) Notifier"
  assumes "createNotification mk type n = Inr (result, n')"
  shows "\<exists>ops. accounted n n' ops"
proof (cases result)
  case None
  with assms createNotification_None [of mk type n n'] show ?thesis
    by (auto simp: accounted_def)
next
  case (Some popup)
  with assms createNotification_Some(7) [of mk type n popup n'] show ?thesis
    by (auto simp: accounted_def)
qed

lemma visibleChanged_accounted:
  fixes n :: "('n::{comm_ring_1,linorder}) Notifier"
  shows "\<exists>ops. accounted n (visibleChanged_lambda visible n) ops"
  using visibleChanged_trace [of visible n] by (auto simp: accounted_def)

lemma showNotification_accounted:
  assumes "showNotification notification timeout n = Inr n'"
  shows "\<exists>ops. accounted n n' ops"
  using showNotification_Inr [OF assms] by (auto simp: accounted_def)

lemma step_accounted:
  fixes n :: "('n::{comm_ring_1,linorder}) Notifier"
  assumes "step e n = Inr n'"
  shows "\<exists>ops. accounted n n' ops"
proof -
  have notify: ?thesis
    if kind: "e = ReceivedMessage env message \<and> type = MessageReceived \<or>
         e = ReceivedFileMessage env message \<and> type = FileMessageReceived \<or>
         e = ReceivedCall env call \<and> type = CallReceived"
    for env message call type
  proof -
    from notify_step [OF assms kind] obtain n1 where
      made: "createNotification (create env) type n = Inr (created e n, n1)"
      and rest: "case created e n of
              None \<Rightarrow> n' = n1
            | Some popup \<Rightarrow>
                \<exists>notification n2 ops.
                  accounted n1 n2 ops \<and> m_offset n2 = m_offset n1 \<and>
                  m_n_instances n2 = m_n_instances n1 \<and>
                  showNotification notification 10000 n2 = Inr n'"
      by blast
    from createNotification_accounted [OF made] obtain ops1 where
      first: "accounted n n1 ops1" by blast
    show ?thesis
    proof (cases "created e n")
      case None
      with rest first show ?thesis by auto
    next
      case (Some popup)
      with rest obtain notification n2 ops2 where
        second: "accounted n1 n2 ops2"
        and shown: "showNotification notification 10000 n2 = Inr n'"
        by auto
      from showNotification_accounted [OF shown] obtain ops3 where "accounted n2 n' ops3"
        by blast
      with first second show ?thesis by (blast intro: accounted_trans)
    qed
  qed
  show ?thesis
  proof (cases e)
    case (ReceivedMessage env message)
    then show ?thesis by (intro notify [of env message MessageReceived]) simp
  next
    case (ReceivedFileMessage env message)
    then show ?thesis by (intro notify [of env message FileMessageReceived]) simp
  next
    case (ReceivedCall env call)
    then show ?thesis by (intro notify [of env _ CallReceived call]) simp
  next
    case (VisibleChanged visible)
    with assms visibleChanged_accounted [of n visible] show ?thesis by auto
  next
    case (TimerExpired notification)
    with assms show ?thesis by (auto simp: singleShot_lambda_def perform_def accounted_def)
  next
    case (StatusChanged notification status)
    with assms show ?thesis
      by (auto simp: statusChanged_lambda_def perform_def accounted_def
          split: if_splits option.splits)
  qed
qed

lemma run_accounted:
  fixes n :: "('n::{comm_ring_1,linorder}) Notifier"
  assumes "run es n = Inr n'"
  shows "\<exists>ops. accounted n n' ops"
  using assms
proof (induction es arbitrary: n)
  case Nil
  then show ?case by (auto simp: accounted_def)
next
  case (Cons e es)
  from Cons.prems obtain n1 where first: "step e n = Inr n1" and rest: "run es n1 = Inr n'"
    by (auto split: sum.splits)
  from step_accounted [OF first] Cons.IH [OF rest] show ?case
    by (blast intro: accounted_trans)
qed

lemmas evaluate_run = example_events_def example_dismissed_def notifyReceivedMessage_def
  notifyReceivedCall_def showNotification_def visibleChanged_lambda_def example_env_def
  example_message_def MAX_TIMEOUT_def timeouts Let_def evaluate

text \<open>
  C7. Every read and write of \<^verbatim>\<open>m_n_instances\<close> and \<^verbatim>\<open>m_offset\<close> happens while the mutex
  is held. A call of \<open>createNotification\<close> that returns a popup performs exactly: lock,
  the reads, the write of the advanced offset, the read and the write of the incremented
  counter, unlock; a call that returns \<^verbatim>\<open>nullptr\<close> performs only reads between lock and
  unlock and leaves both members as they were. The dismissal lambda performs exactly:
  lock, the read and the write of the decremented counter, a read of the counter, the
  write of the offset when the counter is zero, unlock. Each of these sequences obeys
  the locking discipline. In any run of the file's entry points that returns, the
  operations added to the trace obey the discipline, the mutex is free at the end, and
  a member whose value has changed was written by one of them.
\<close>

theorem members_accessed_under_mutex:
  fixes n :: "('n::{comm_ring_1,linorder}) Notifier"
  shows
   "(\<forall>popup n'. createNotification mk type n = Inr (Some popup, n') \<longrightarrow>
       trace n' = trace n @ [Lock, Read Instances, Read Offset, Read Offset, Write Offset,
                             Read Instances, Write Instances, Unlock] \<and>
       m_offset n' = (fst (toInt popup NOTIFICATION_PROPERTY_HEIGHT) + m_offset n)
                       + NOTIFICATION_SPACING \<and>
       m_n_instances n' = m_n_instances n + 1) \<and>
    (\<forall>n'. createNotification mk type n = Inr (None, n') \<longrightarrow>
       m_offset n' = m_offset n \<and> m_n_instances n' = m_n_instances n \<and>
       (trace n' = trace n @ [Lock, Read Instances, Unlock] \<or>
        (\<exists>object. mk (m_components type) = Some object \<and>
           (trace n' = trace n @ [Lock, Read Instances, Delete object, Unlock] \<or>
            trace n' = trace n @ [Lock, Read Instances, Read Offset, Delete object, Unlock])))) \<and>
    trace (visibleChanged_lambda visible n)
      = trace n @ (if m_n_instances n - 1 = 0
                   then [Lock, Read Instances, Write Instances, Read Instances,
                         Write Offset, Unlock]
                   else [Lock, Read Instances, Write Instances, Read Instances, Unlock]) \<and>
    m_n_instances (visibleChanged_lambda visible n) = m_n_instances n - 1 \<and>
    m_offset (visibleChanged_lambda visible n)
      = (if m_n_instances n - 1 = 0 then 0 else m_offset n) \<and>
    guarded False [Lock, Read Instances, Read Offset, Read Offset, Write Offset,
                   Read Instances, Write Instances, Unlock] \<and>
    guarded False [Lock, Read Instances, Write Instances, Read Instances, Write Offset, Unlock] \<and>
    guarded False [Lock, Read Instances, Write Instances, Read Instances, Unlock] \<and>
    (\<forall>n'. run es n = Inr n' \<longrightarrow>
       (\<exists>ops. trace n' = trace n @ ops \<and> guarded False ops \<and>
          (m_offset n' \<noteq> m_offset n \<longrightarrow> Write Offset \<in> set ops) \<and>
          (m_n_instances n' \<noteq> m_n_instances n \<longrightarrow> Write Instances \<in> set ops)))"
proof -
  have created: "trace n' = trace n @ [Lock, Read Instances, Read Offset, Read Offset,
                             Write Offset, Read Instances, Write Instances, Unlock] \<and>
       m_offset n' = (fst (toInt popup NOTIFICATION_PROPERTY_HEIGHT) + m_offset n)
                       + NOTIFICATION_SPACING \<and>
       m_n_instances n' = m_n_instances n + 1"
    if "createNotification mk type n = Inr (Some popup, n')" for popup n'
    using createNotification_Some(5,6,7) [OF that] by simp
  have refused: "m_offset n' = m_offset n \<and> m_n_instances n' = m_n_instances n \<and>
       (trace n' = trace n @ [Lock, Read Instances, Unlock] \<or>
        (\<exists>object. mk (m_components type) = Some object \<and>
           (trace n' = trace n @ [Lock, Read Instances, Delete object, Unlock] \<or>
            trace n' = trace n @ [Lock, Read Instances, Read Offset, Delete object, Unlock])))"
    if "createNotification mk type n = Inr (None, n')" for n'
    using createNotification_None [OF that] by simp
  have runs: "\<exists>ops. trace n' = trace n @ ops \<and> guarded False ops \<and>
          (m_offset n' \<noteq> m_offset n \<longrightarrow> Write Offset \<in> set ops) \<and>
          (m_n_instances n' \<noteq> m_n_instances n \<longrightarrow> Write Instances \<in> set ops)"
    if "run es n = Inr n'" for n'
    using run_accounted [OF that] by (simp add: accounted_def)
  have disciplined:
    "guarded False [Lock, Read Instances, Read Offset, Read Offset, Write Offset,
                   Read Instances, Write Instances, Unlock]"
    "guarded False [Lock, Read Instances, Write Instances, Read Instances, Write Offset, Unlock]"
    "guarded False [Lock, Read Instances, Write Instances, Read Instances, Unlock]"
    by simp_all
  from created refused runs disciplined visibleChanged_trace [of visible n]
  show ?thesis by blast
qed

text \<open>The run of \<open>example_dismissed\<close>: the dismissal resets the offset.\<close>

lemma run_dismissed:
  "run example_dismissed (example_notifier 0 0)
     = Inr \<lparr>m_offset = 0, m_n_instances = 0,
            trace =
              [Lock, Read Instances, Read Offset, Read Offset, Write Offset,
               Read Instances, Write Instances, Unlock,
               InvokeMethod
                 ((example_popup 120)\<lparr>properties :=
                    [(''notificationOffset'', VInt 0),
                     (''notificationData'',
                      VMap [(''message'', VString ''hello''),
                            (''sipAddress'', VString ''sip:alice@example.org''),
                            (''window'', VWindow (QQuickWindow 0))])]\<rparr>)
                 ''show'',
               ConnectVisibleChanged (QQuickWindow 1),
               SingleShot 10000
                 ((example_popup 120)\<lparr>properties :=
                    [(''notificationOffset'', VInt 0),
                     (''notificationData'',
                      VMap [(''message'', VString ''hello''),
                            (''sipAddress'', VString ''sip:alice@example.org''),
                            (''window'', VWindow (QQuickWindow 0))])]\<rparr>),
               Lock, Read Instances, Write Instances, Read Instances, Write Offset,
               Unlock]\<rparr>"
  by (simp add: evaluate_run)

theorem members_accessed_under_mutex_witness:
  "createNotification (create example_env) MessageReceived (example_notifier 0 0)
     = Inr (Some ((example_popup 120)\<lparr>properties := [(''notificationOffset'', VInt 0)]\<rparr>),
            \<lparr>m_offset = 130, m_n_instances = 1,
             trace = [Lock, Read Instances, Read Offset, Read Offset, Write Offset,
                      Read Instances, Write Instances, Unlock]\<rparr>) \<and>
   createNotification (create example_env) MessageReceived (example_notifier 1950 15)
     = Inr (None, \<lparr>m_offset = 1950, m_n_instances = 15,
                   trace = [Lock, Read Instances, Unlock]\<rparr>) \<and>
   trace (visibleChanged_lambda False (example_notifier 130 1))
     = [Lock, Read Instances, Write Instances, Read Instances, Write Offset, Unlock] \<and>
   m_offset (visibleChanged_lambda False (example_notifier 130 1)) = 0 \<and>
   trace (visibleChanged_lambda False (example_notifier 220 2))
     = [Lock, Read Instances, Write Instances, Read Instances, Unlock] \<and>
   m_offset (visibleChanged_lambda False (example_notifier 220 2)) = 220 \<and>
   (\<exists>n'. run example_dismissed (example_notifier 0 0) = Inr n' \<and>
      m_offset n' = 0 \<and> m_n_instances n' = 0 \<and> guarded False (trace n') \<and>
      Write Instances \<in> set (trace n') \<and> Write Offset \<in> set (trace n'))"
proof -
  have made: "createNotification (create example_env) MessageReceived (example_notifier 0 0)
     = Inr (Some ((example_popup 120)\<lparr>properties := [(''notificationOffset'', VInt 0)]\<rparr>),
            \<lparr>m_offset = 130, m_n_instances = 1,
             trace = [Lock, Read Instances, Read Offset, Read Offset, Write Offset,
                      Read Instances, Write Instances, Unlock]\<rparr>)"
    by (simp add: evaluate example_env_def)
  have full: "createNotification (create example_env) MessageReceived (example_notifier 1950 15)
     = Inr (None, \<lparr>m_offset = 1950, m_n_instances = 15,
                   trace = [Lock, Read Instances, Unlock]\<rparr>)"
    by (simp add: evaluate example_env_def)
  note reset = members_accessed_under_mutex
    [of "create example_env" MessageReceived "example_notifier 130 1" False example_dismissed]
  note kept = members_accessed_under_mutex
    [of "create example_env" MessageReceived "example_notifier 220 2" False example_dismissed]
  note start = members_accessed_under_mutex
    [of "create example_env" MessageReceived "example_notifier 0 0" False example_dismissed]
  from reset have one:
    "trace (visibleChanged_lambda False (example_notifier 130 1))
       = [Lock, Read Instances, Write Instances, Read Instances, Write Offset, Unlock]"
    "m_offset (visibleChanged_lambda False (example_notifier 130 1)) = 0"
    by (simp_all add: example_notifier_def)
  from kept have two:
    "trace (visibleChanged_lambda False (example_notifier 220 2))
       = [Lock, Read Instances, Write Instances, Read Instances, Unlock]"
    "m_offset (visibleChanged_lambda False (example_notifier 220 2)) = 220"
    by (simp_all add: example_notifier_def)
  from start run_dismissed
  have "\<exists>ops. trace (projr (run example_dismissed (example_notifier 0 0)))
                = trace (example_notifier 0 0) @ ops \<and> guarded False ops"
    by auto
  then have "guarded False (trace (projr (run example_dismissed (example_notifier 0 0))))"
    by (auto simp: example_notifier_def)
  with run_dismissed
  have "\<exists>n'. run example_dismissed (example_notifier 0 0) = Inr n' \<and>
      m_offset n' = 0 \<and> m_n_instances n' = 0 \<and> guarded False (trace n') \<and>
      Write Instances \<in> set (trace n') \<and> Write Offset \<in> set (trace n')"
    by simp
  with made full one two show ?thesis by blast
qed

subsection \<open>Growth of the offset\<close>

lemma showNotification_members:
  assumes "showNotification notification timeout n = Inr n'"
  shows "m_offset n' = m_offset n" and "m_n_instances n' = m_n_instances n"
  using showNotification_Inr [OF assms] by auto

text \<open>The effect of one event on the stored offset.\<close>

lemma step_offset:
  fixes n :: "('n::{comm_ring_1,linorder}) Notifier"
  assumes "step e n = Inr n'"
  shows "case created e n of
           Some popup \<Rightarrow>
             m_offset n' = (fst (toInt popup NOTIFICATION_PROPERTY_HEIGHT) + m_offset n)
                             + NOTIFICATION_SPACING \<and>
             0 \<le> height popup
         | None \<Rightarrow>
             m_offset n' = m_offset n \<or>
             (\<exists>visible. e = VisibleChanged visible) \<and> m_n_instances n' = 0 \<and> m_offset n' = 0"
proof -
  have notify: ?thesis
    if kind: "e = ReceivedMessage env message \<and> type = MessageReceived \<or>
         e = ReceivedFileMessage env message \<and> type = FileMessageReceived \<or>
         e = ReceivedCall env call \<and> type = CallReceived"
    for env message call type
  proof -
    from notify_step [OF assms kind] obtain n1 where
      made: "createNotification (create env) type n = Inr (created e n, n1)"
      and rest: "case created e n of
              None \<Rightarrow> n' = n1
            | Some popup \<Rightarrow>
                \<exists>notification n2 ops.
                  accounted n1 n2 ops \<and> m_offset n2 = m_offset n1 \<and>
                  m_n_instances n2 = m_n_instances n1 \<and>
                  showNotification notification 10000 n2 = Inr n'"
      by blast
    show ?thesis
    proof (cases "created e n")
      case None
      with made rest createNotification_None(1) [of "create env" type n n1] show ?thesis
        by simp
    next
      case (Some popup)
      with rest obtain notification n2 where
        "m_offset n2 = m_offset n1" "showNotification notification 10000 n2 = Inr n'"
        by auto
      with showNotification_members(1) [of notification 10000 n2 n']
      have "m_offset n' = m_offset n1" by simp
      with Some made createNotification_Some(3,5) [of "create env" type n popup n1]
      show ?thesis by simp
    qed
  qed
  show ?thesis
  proof (cases e)
    case (ReceivedMessage env message)
    then show ?thesis by (intro notify [of env message MessageReceived]) simp
  next
    case (ReceivedFileMessage env message)
    then show ?thesis by (intro notify [of env message FileMessageReceived]) simp
  next
    case (ReceivedCall env call)
    then show ?thesis by (intro notify [of env _ CallReceived call]) simp
  next
    case (VisibleChanged visible)
    with assms visibleChanged_trace(2,3) [of visible n] show ?thesis by auto
  next
    case (TimerExpired notification)
    with assms show ?thesis by (auto simp: singleShot_lambda_def perform_def)
  next
    case (StatusChanged notification status)
    with assms show ?thesis
      by (auto simp: statusChanged_lambda_def perform_def split: if_splits option.splits)
  qed
qed

lemma live_Cons:
  fixes n :: "('n::{comm_ring_1,linorder}) Notifier"
  assumes "live (e # es) n" and "step e n = Inr n1"
  shows "live es n1" and "(\<exists>visible. e = VisibleChanged visible) \<Longrightarrow> m_n_instances n1 \<noteq> 0"
  using assms by (cases e; auto)+

text \<open>The popups created along a run have heights that are not negative.\<close>

lemma popups_heights:
  fixes n :: "('n::{comm_ring_1,linorder}) Notifier"
  shows "\<forall>popup \<in> set (popups es n). 0 \<le> height popup"
proof (induction es arbitrary: n)
  case Nil
  show ?case by simp
next
  case (Cons e es)
  show ?case
  proof (cases "step e n")
    case (Inl err)
    then show ?thesis by simp
  next
    case (Inr n1)
    from step_offset [OF Inr] Cons.IH [of n1] Inr show ?thesis
      by (auto split: option.splits)
  qed
qed

lemma heights_sum:
  assumes "\<forall>popup \<in> set ps. 0 \<le> height popup"
  shows "10 * int (length ps) \<le> sum_list (map (\<lambda>popup. height popup + 10) ps)"
  using assms by (induction ps) auto

lemma run_offset:
  fixes n :: "('n::{comm_ring_1,linorder}) Notifier"
  assumes "run es n = Inr n'" and "live es n"
    and "sint (m_offset n) + sum_list (map (\<lambda>popup. height popup + 10) (popups es n)) < 2 ^ 31"
  shows "sint (m_offset n')
           = sint (m_offset n) + sum_list (map (\<lambda>popup. height popup + 10) (popups es n))"
  using assms
proof (induction es arbitrary: n)
  case Nil
  then show ?case by simp
next
  case (Cons e es)
  from Cons.prems(1) obtain n1 where first: "step e n = Inr n1" and rest: "run es n1 = Inr n'"
    by (auto split: sum.splits)
  note l = live_Cons [OF Cons.prems(2) first]
  from heights_sum [OF popups_heights [of es n1]]
  have tail: "0 \<le> sum_list (map (\<lambda>popup. height popup + 10) (popups es n1))"
    by simp
  show ?case
  proof (cases "created e n")
    case None
    with first have same: "popups (e # es) n = popups es n1" by simp
    from step_offset [OF first] None l(2) have "m_offset n1 = m_offset n" by auto
    with same Cons.IH [OF rest l(1)] Cons.prems(3) show ?thesis by simp
  next
    case (Some popup)
    with first have more: "popups (e # es) n = popup # popups es n1" by simp
    from step_offset [OF first] Some
    have word: "m_offset n1 = (fst (toInt popup NOTIFICATION_PROPERTY_HEIGHT) + m_offset n)
                             + NOTIFICATION_SPACING"
      and h: "0 \<le> height popup"
      by simp_all
    from Cons.prems(3) more tail have "sint (m_offset n) + height popup + 10 < 2 ^ 31"
      by simp
    with offset_advance [of "fst (toInt popup NOTIFICATION_PROPERTY_HEIGHT)" "m_offset n"] h word
    have adv: "sint (m_offset n1) = sint (m_offset n) + height popup + 10"
      by (simp add: height_def)
    with Cons.prems(3) more
    have "sint (m_offset n1) + sum_list (map (\<lambda>popup. height popup + 10) (popups es n1))
            < 2 ^ 31"
      by simp
    from Cons.IH [OF rest l(1) this] adv more show ?thesis by simp
  qed
qed

lemma live_example: "live example_events (example_notifier 0 0)"
  by (simp add: evaluate_run)

lemma run_example:
  "\<exists>n'. run example_events (example_notifier 0 0) = Inr n' \<and>
        m_offset n' = 260 \<and> m_n_instances n' = 1"
  by (simp add: evaluate_run)

lemma popups_example:
  "popups example_events (example_notifier 0 0)
     = [(example_popup 120)\<lparr>properties := [(''notificationOffset'', VInt 0)]\<rparr>,
        (example_popup 120)\<lparr>properties := [(''notificationOffset'', VInt 130)]\<rparr>]"
  by (simp add: evaluate_run)

text \<open>
  C10, as amended. In a run that returns, in which no dismissal brings the counter to
  zero, and in which the offset at the start plus, for each popup created, its height
  plus 10 is an \<^verbatim>\<open>int\<close>, that is below \<open>2 ^ 31\<close>: the stored offset at the end is that
  number; the heights are not negative, so each creation raises the offset by at least
  10 and the offset never goes down. A dismissal leaves the offset as it is unless it
  brings the counter to zero, and then the offset is zero.
\<close>

theorem offset_grows_while_live:
  fixes n :: "('n::{comm_ring_1,linorder}) Notifier"
  assumes "run es n = Inr n'" and "live es n"
    and "sint (m_offset n) + sum_list (map (\<lambda>popup. height popup + 10) (popups es n)) < 2 ^ 31"
  shows "sint (m_offset n')
           = sint (m_offset n) + sum_list (map (\<lambda>popup. height popup + 10) (popups es n)) \<and>
         (\<forall>popup \<in> set (popups es n). 0 \<le> height popup) \<and>
         sint (m_offset n) + 10 * int (length (popups es n)) \<le> sint (m_offset n') \<and>
         (\<forall>visible. \<forall>m :: 'n Notifier.
            m_offset (visibleChanged_lambda visible m) = m_offset m \<or>
            m_n_instances (visibleChanged_lambda visible m) = 0 \<and>
            m_offset (visibleChanged_lambda visible m) = 0)"
proof -
  note total = run_offset [OF assms]
  note heights = popups_heights [of es n]
  from heights_sum [OF heights] total
  have "sint (m_offset n) + 10 * int (length (popups es n)) \<le> sint (m_offset n')"
    by simp
  moreover have "m_offset (visibleChanged_lambda visible m) = m_offset m \<or>
            m_n_instances (visibleChanged_lambda visible m) = 0 \<and>
            m_offset (visibleChanged_lambda visible m) = 0"
    for visible and m :: "'n Notifier"
    by (simp add: visibleChanged_trace)
  ultimately show ?thesis using total heights by blast
qed

theorem offset_grows_while_live_witness:
  "live example_events (example_notifier 0 0) \<and>
   sint (m_offset (example_notifier 0 0))
     + sum_list (map (\<lambda>popup. height popup + 10) (popups example_events (example_notifier 0 0)))
     < 2 ^ 31 \<and>
   (\<exists>n'. run example_events (example_notifier 0 0) = Inr n' \<and> sint (m_offset n') = 260) \<and>
   map height (popups example_events (example_notifier 0 0)) = [120, 120]"
proof -
  from run_example obtain n' where r: "run example_events (example_notifier 0 0) = Inr n'"
    by blast
  have fits: "sint (m_offset (example_notifier 0 0))
     + sum_list (map (\<lambda>popup. height popup + 10) (popups example_events (example_notifier 0 0)))
     < 2 ^ 31"
    unfolding popups_example by (simp add: height_def example_popup_def example_notifier_def)
  from offset_grows_while_live [OF r live_example fits]
  have "sint (m_offset n') = sint (m_offset (example_notifier 0 0))
          + sum_list (map (\<lambda>popup. height popup + 10)
                        (popups example_events (example_notifier 0 0)))"
    by blast
  then have "sint (m_offset n') = 260"
    unfolding popups_example by (simp add: height_def example_popup_def example_notifier_def)
  moreover have "map height (popups example_events (example_notifier 0 0)) = [120, 120]"
    by (simp add: popups_example height_def example_popup_def)
  ultimately show ?thesis using r live_example fits by blast
qed

text \<open>
  C10, as stated, fails: the source adds without a check. With one notification live and
  the offset at 2147483600, a chat message whose popup has the height 120 is notified;
  the call returns the popup, no dismissal happens, and the stored offset wraps around
  to a negative number, below the offset before.
\<close>

theorem offset_grows_while_live_counterexample:
  "live [ReceivedMessage example_env example_message] (example_notifier 2147483600 1) \<and>
   created (ReceivedMessage example_env example_message) (example_notifier 2147483600 1)
     = Some ((example_popup 120)\<lparr>properties := [(''notificationOffset'', VInt 2147483600)]\<rparr>) \<and>
   map_sum id m_n_instances
     (run [ReceivedMessage example_env example_message] (example_notifier 2147483600 1))
     = Inr 2 \<and>
   map_sum id m_offset
     (run [ReceivedMessage example_env example_message] (example_notifier 2147483600 1))
     = Inr 2147483730 \<and>
   sint (2147483730 :: cint) = - 2147483566 \<and>
   sint (2147483730 :: cint) < sint (m_offset (example_notifier 2147483600 1))"
  by (simp add: evaluate_run)

end
